theory Spec2Isabelle
  imports Main "HOL-Library.AList"
begin

section \<open>The addon model of ember-cli (lib/models/addon.js)\<close>

text \<open>
  A shallow embedding of \<^verbatim>\<open>lib/models/addon.js\<close>. A JavaScript string is
  modelled as a \<^typ>\<open>string\<close>, one \<^typ>\<open>char\<close> for each code unit: the
  type holds the code units below U+0100 (ASCII and Latin-1), and case mapping and the
  whitespace class \<^verbatim>\<open>\s\<close> are JavaScript's on that range. A value that may be
  \<^verbatim>\<open>undefined\<close> is an \<^typ>\<open>'a option\<close>. Exceptions are values of
  type \<open>error\<close>; a function that can throw returns \<open>error + 'a\<close> and the
  state after a throw is not tracked. The methods \<^verbatim>\<open>blueprintsPath\<close> and
  \<^verbatim>\<open>config\<close> are not part of the embedding.
\<close>

subsection \<open>JavaScript values and strings\<close>

datatype error = SilentError string | TypeError string | RangeError string | SyntaxError string

text \<open>Truthiness of a value that is a string or \<^verbatim>\<open>undefined\<close>.\<close>

definition truthy :: "string option \<Rightarrow> bool" where
  "truthy v = (case v of None \<Rightarrow> False | Some s \<Rightarrow> s \<noteq> [])"

text \<open>String conversion, as performed by \<^verbatim>\<open>+\<close> on a string and a value.\<close>

definition ToString :: "string option \<Rightarrow> string" where
  "ToString v = (case v of None \<Rightarrow> ''undefined'' | Some s \<Rightarrow> s)"

text \<open>
  \<^verbatim>\<open>toLowerCase\<close> on one character: the letters A to Z and the capital
  letters of Latin-1 (U+00C0 to U+00DE without the multiplication sign U+00D7) go to
  their small letters, 32 places on; every other character below U+0100 stays.
\<close>

definition toLowerCase_char :: "char \<Rightarrow> char" where
  "toLowerCase_char c =
     (case map_of
        (zip (''ABCDEFGHIJKLMNOPQRSTUVWXYZ'' @
          [CHR 0xC0, CHR 0xC1, CHR 0xC2, CHR 0xC3, CHR 0xC4, CHR 0xC5, CHR 0xC6, CHR 0xC7,
          CHR 0xC8, CHR 0xC9, CHR 0xCA, CHR 0xCB, CHR 0xCC, CHR 0xCD, CHR 0xCE, CHR 0xCF,
          CHR 0xD0, CHR 0xD1, CHR 0xD2, CHR 0xD3, CHR 0xD4, CHR 0xD5, CHR 0xD6, CHR 0xD8,
          CHR 0xD9, CHR 0xDA, CHR 0xDB, CHR 0xDC, CHR 0xDD, CHR 0xDE])
         (''abcdefghijklmnopqrstuvwxyz'' @
          [CHR 0xE0, CHR 0xE1, CHR 0xE2, CHR 0xE3, CHR 0xE4, CHR 0xE5, CHR 0xE6, CHR 0xE7,
          CHR 0xE8, CHR 0xE9, CHR 0xEA, CHR 0xEB, CHR 0xEC, CHR 0xED, CHR 0xEE, CHR 0xEF,
          CHR 0xF0, CHR 0xF1, CHR 0xF2, CHR 0xF3, CHR 0xF4, CHR 0xF5, CHR 0xF6, CHR 0xF8,
          CHR 0xF9, CHR 0xFA, CHR 0xFB, CHR 0xFC, CHR 0xFD, CHR 0xFE])) c of
        None \<Rightarrow> c | Some l \<Rightarrow> l)"

definition toLowerCase :: "string \<Rightarrow> string" where
  "toLowerCase s = map toLowerCase_char s"

text \<open>
  The class \<^verbatim>\<open>\s\<close> below U+0100: space, tab, line feed, vertical tab, form
  feed, carriage return and the no-break space U+00A0.
\<close>

definition is_whitespace :: "char \<Rightarrow> bool" where
  "is_whitespace c =
     (c \<in> set [CHR '' '', CHR 0x09, CHR 0x0A, CHR 0x0B, CHR 0x0C, CHR 0x0D, CHR 0xA0])"

text \<open>\<^verbatim>\<open>s.replace(/\s/g, '-')\<close>\<close>

definition replace_whitespace :: "string \<Rightarrow> string" where
  "replace_whitespace s = map (\<lambda>c. if is_whitespace c then CHR ''-'' else c) s"

text \<open>\<^verbatim>\<open>s.replace(/\\/g, '/')\<close>\<close>

definition replace_backslashes :: "string \<Rightarrow> string" where
  "replace_backslashes s = map (\<lambda>c. if c = CHR 0x5C then CHR ''/'' else c) s"

text \<open>
  \<^verbatim>\<open>s.replace(pattern, replacement)\<close> with a string pattern: only the first
  occurrence is replaced, and the replacement string is expanded: \<^verbatim>\<open>$$\<close> is a
  dollar sign, \<^verbatim>\<open>$&\<close> the matched text, \<^verbatim>\<open>$`\<close> the text before the match
  and \<^verbatim>\<open>$'\<close> the text after it. A string pattern has no captures, so
  \<^verbatim>\<open>$1\<close> and the like stay as they are.
\<close>

fun find_first :: "string \<Rightarrow> string \<Rightarrow> string \<Rightarrow> (string \<times> string) option" where
  "find_first pat acc [] = (if pat = [] then Some (rev acc, []) else None)"
| "find_first pat acc (c # cs) =
     (if take (length pat) (c # cs) = pat then Some (rev acc, drop (length pat) (c # cs))
      else find_first pat (c # acc) cs)"

fun expand_replacement :: "string \<Rightarrow> string \<Rightarrow> string \<Rightarrow> string \<Rightarrow> string" where
  "expand_replacement pre matched post [] = []"
| "expand_replacement pre matched post [c] = [c]"
| "expand_replacement pre matched post (c # d # cs) =
     (if c = CHR ''$'' then
        (if d = CHR ''$'' then CHR ''$'' # expand_replacement pre matched post cs
         else if d = CHR ''&'' then matched @ expand_replacement pre matched post cs
         else if d = CHR 0x60 then pre @ expand_replacement pre matched post cs
         else if d = CHR 0x27 then post @ expand_replacement pre matched post cs
         else c # expand_replacement pre matched post (d # cs))
      else c # expand_replacement pre matched post (d # cs))"

definition replace_str :: "string \<Rightarrow> string \<Rightarrow> string \<Rightarrow> string" where
  "replace_str s pat repl =
     (case find_first pat [] s of
        None \<Rightarrow> s
      | Some (pre, post) \<Rightarrow> pre @ expand_replacement pre pat post repl @ post)"

text \<open>\<^verbatim>\<open>s.slice(0, -n)\<close> for a length \<open>n\<close>; \<^verbatim>\<open>-0\<close> is \<open>0\<close>, so the result is empty.\<close>

definition slice_0_neg :: "string \<Rightarrow> nat \<Rightarrow> string" where
  "slice_0_neg s n = (if n = 0 then [] else take (length s - n) s)"

text \<open>\<^verbatim>\<open>xs.join(sep)\<close>\<close>

fun js_join :: "string \<Rightarrow> string list \<Rightarrow> string" where
  "js_join sep [] = []"
| "js_join sep [x] = x"
| "js_join sep (x # y # ys) = x @ sep @ js_join sep (y # ys)"

subsection \<open>Objects as insertion-ordered association lists\<close>

text \<open>
  An object used as a dictionary is a list of key-value pairs in insertion order with no
  key twice. Writing a key that is present replaces its value in place, writing a new key
  appends it (\<^const>\<open>AList.update\<close>). Keys that look like array indices, which
  JavaScript enumerates first, do not occur among module names with a slash and are not
  treated specially.
\<close>

type_synonym 'v obj = "(string \<times> 'v) list"

definition Object_keys :: "'v obj \<Rightarrow> string list" where
  "Object_keys ob = map fst ob"

text \<open>lodash \<^verbatim>\<open>assign(target, source)\<close>: every own property of the source is written to the target.\<close>

definition assign :: "'v obj \<Rightarrow> 'v obj \<Rightarrow> 'v obj" where
  "assign target source = foldl (\<lambda>t (k, v). AList.update k v t) target source"

subsection \<open>Node's path module (POSIX)\<close>

fun split_slash_aux :: "string \<Rightarrow> string \<Rightarrow> string list" where
  "split_slash_aux acc [] = [rev acc]"
| "split_slash_aux acc (c # cs) =
     (if c = CHR ''/'' then rev acc # split_slash_aux [] cs else split_slash_aux (c # acc) cs)"

definition split_slash :: "string \<Rightarrow> string list" where
  "split_slash s = split_slash_aux [] s"

text \<open>
  \<^verbatim>\<open>normalizeString\<close>: drops empty and \<^verbatim>\<open>.\<close> segments and resolves
  \<^verbatim>\<open>..\<close> against the segments kept so far (the accumulator is reversed).
\<close>

fun normalize_segments :: "bool \<Rightarrow> string list \<Rightarrow> string list \<Rightarrow> string list" where
  "normalize_segments allowAboveRoot acc [] = rev acc"
| "normalize_segments allowAboveRoot acc (s # ss) =
     (if s = [] \<or> s = ''.'' then normalize_segments allowAboveRoot acc ss
      else if s = ''..'' then
        (case acc of
           [] \<Rightarrow> normalize_segments allowAboveRoot (if allowAboveRoot then [''..''] else []) ss
         | a # as \<Rightarrow>
             (if a = ''..'' then
                normalize_segments allowAboveRoot
                  (if allowAboveRoot then ''..'' # a # as else a # as) ss
              else normalize_segments allowAboveRoot as ss))
      else normalize_segments allowAboveRoot (s # acc) ss)"

definition normalizeString :: "string \<Rightarrow> bool \<Rightarrow> string" where
  "normalizeString p allowAboveRoot =
     js_join ''/'' (normalize_segments allowAboveRoot [] (split_slash p))"

definition isAbsolute :: "string \<Rightarrow> bool" where
  "isAbsolute p = (case p of [] \<Rightarrow> False | c # _ \<Rightarrow> c = CHR ''/'')"

definition path_normalize :: "string \<Rightarrow> string" where
  "path_normalize p =
     (if p = [] then ''.''
      else
        (let trailingSeparator = (last p = CHR ''/'');
             q = normalizeString p (\<not> isAbsolute p)
         in if q = [] then
              (if isAbsolute p then ''/'' else if trailingSeparator then ''./'' else ''.'')
            else
              (let q' = (if trailingSeparator then q @ ''/'' else q)
               in if isAbsolute p then ''/'' @ q' else q')))"

text \<open>
  \<^verbatim>\<open>path.join(a, b)\<close>: an argument that is not a string is a type error;
  empty arguments are skipped; the rest are joined by a slash and normalized.
\<close>

definition path_join :: "string option \<Rightarrow> string option \<Rightarrow> error + string" where
  "path_join a b =
     (case a of
        None \<Rightarrow> Inl (TypeError ''Arguments to path.join must be strings'')
      | Some x \<Rightarrow>
          (case b of
             None \<Rightarrow> Inl (TypeError ''Arguments to path.join must be strings'')
           | Some y \<Rightarrow>
               (let parts = filter (\<lambda>s. s \<noteq> []) [x, y]
                in if parts = [] then Inr ''.'' else Inr (path_normalize (js_join ''/'' parts)))))"

text \<open>\<^verbatim>\<open>path.resolve(from, to)\<close> in the working directory \<open>cwd\<close>.\<close>

fun resolve_args :: "string list \<Rightarrow> string \<Rightarrow> string" where
  "resolve_args [] resolved = resolved"
| "resolve_args (p # ps) resolved =
     (if isAbsolute resolved then resolved
      else if p = [] then resolve_args ps resolved
      else resolve_args ps (p @ ''/'' @ resolved))"

definition path_resolve :: "string \<Rightarrow> string \<Rightarrow> string \<Rightarrow> string" where
  "path_resolve cwd from to =
     (let resolvedPath = resolve_args [to, from, cwd] [];
          resolvedAbsolute = isAbsolute resolvedPath;
          q = normalizeString resolvedPath (\<not> resolvedAbsolute)
      in if resolvedAbsolute then ''/'' @ q else if q \<noteq> [] then q else ''.'')"

text \<open>
  \<^verbatim>\<open>path.extname(p)\<close>: the part of the last segment from its last dot on; empty
  when there is no dot, when the only dot starts the segment, or for the segment
  \<^verbatim>\<open>..\<close>. Trailing slashes are ignored.
\<close>

definition basename_rev :: "string \<Rightarrow> string" where
  "basename_rev p = takeWhile (\<lambda>c. c \<noteq> CHR ''/'') (dropWhile (\<lambda>c. c = CHR ''/'') (rev p))"

definition extname :: "string \<Rightarrow> string" where
  "extname p =
     (let b = basename_rev p;
          ext_rev = takeWhile (\<lambda>c. c \<noteq> CHR ''.'') b
      in if length ext_rev = length b then []
         else if Suc (length ext_rev) = length b then []
         else if b = ''..'' then []
         else CHR ''.'' # rev ext_rev)"

text \<open>\<^verbatim>\<open>path.dirname(p)\<close>\<close>

definition dirname :: "string \<Rightarrow> string" where
  "dirname p =
     (case p of
        [] \<Rightarrow> ''.''
      | c # cs \<Rightarrow>
          (let hasRoot = (c = CHR ''/'');
               r = dropWhile (\<lambda>c. c \<noteq> CHR ''/'') (dropWhile (\<lambda>c. c = CHR ''/'') (rev cs))
           in if r = [] then (if hasRoot then ''/'' else ''.'')
              else if hasRoot \<and> length r = 1 then ''//''
              else c # rev (tl r)))"

text \<open>
  Paths in plain form, for stating results of \<^const>\<open>path_resolve\<close>: a plain
  segment is a non-empty name other than \<^verbatim>\<open>.\<close> and \<^verbatim>\<open>..\<close> without a
  slash, and \<open>absolute_of\<close> writes a list of segments as an absolute path.
\<close>

definition plain_segment :: "string \<Rightarrow> bool" where
  "plain_segment s = (s \<noteq> [] \<and> s \<noteq> ''.'' \<and> s \<noteq> ''..'' \<and> CHR ''/'' \<notin> set s)"

definition absolute_of :: "string list \<Rightarrow> string" where
  "absolute_of segs = concat (map (\<lambda>s. CHR ''/'' # s) segs)"

subsection \<open>Trees and the build operators\<close>

text \<open>
  The build operators (\<^verbatim>\<open>broccoli-merge-trees\<close>, the static compiler, the
  file mover, the concatenators, the linter and the preprocessors) are outside this
  file. A tree is the term that records which operator was applied to which arguments
  and options; no operator is evaluated. The operators are the ones that
  \<^verbatim>\<open>_requireBuildPackages\<close> loads by default; an instance that brings its own
  is not modelled.
\<close>

datatype registry = Registry (extensionsForType_js: "string list")

record pickFiles_options =
  srcDir :: string
  files :: "string list option"
  destDir :: string
  allowEmpty :: "bool option"

record fileMover_options =
  srcFile :: string
  destFile :: string

record concatFiles_options =
  concat_inputFiles :: "string list"
  concat_outputFile :: string
  allowNone :: bool

record compileES6_options =
  ignoredModules :: "string list"
  inputFiles :: "string list"
  wrapInEval :: bool
  outputFile :: string
  legacyFilesToAppend :: "string list"

record jshintTrees_options =
  jshintrcPath :: string
  description :: string

datatype tree =
    Dir string
  | UnwatchedTree string
  | MergeTrees "tree list"
  | PickFiles tree pickFiles_options
  | FileMover tree fileMover_options
  | ConcatFiles tree concatFiles_options
  | CompileES6 tree compileES6_options
  | JshintTrees tree jshintTrees_options
  | PreprocessJs tree string "string option" registry
  | PreprocessCss tree string string registry
  | PreprocessTemplates tree registry
  | Reexport "string option" string

text \<open>
  \<^verbatim>\<open>trees.filter(Boolean)\<close> on a list whose entries are trees or
  \<^verbatim>\<open>undefined\<close>.
\<close>

definition filter_Boolean :: "tree option list \<Rightarrow> tree list" where
  "filter_Boolean ts = List.map_filter (\<lambda>t. t) ts"

subsection \<open>The owning application, the environment, the addon\<close>

record app_options =
  opt_wrapInEval :: bool
  jshintrc_app :: string

record app =
  app_name :: string
  hinting :: bool
  importWhitelist :: "string list obj"
  options :: app_options

text \<open>
  Several addons hold a reference to one application object, whose whitelist they
  change: applications live in a store and an addon holds an address.
\<close>

type_synonym store = "(nat \<times> app) list"

text \<open>
  The process and file system: the variable \<^verbatim>\<open>EMBER_ADDON_ENV\<close>,
  \<^verbatim>\<open>fs.existsSync\<close>, \<^verbatim>\<open>glob.sync\<close> and the working directory.
\<close>

record env =
  EMBER_ADDON_ENV :: "string option"
  existsSync :: "string \<Rightarrow> bool"
  glob_sync :: "string \<Rightarrow> string list"
  cwd :: string

text \<open>
  What an addon definition puts on the prototype: the properties this file reads
  (\<^verbatim>\<open>name\<close>, \<^verbatim>\<open>root\<close>, \<^verbatim>\<open>modulePrefix\<close>) and its own
  \<^verbatim>\<open>treeFor...\<close> methods, each a function from a tree to a tree or nothing
  (a method of an addon's own is taken to be pure and not to throw).
\<close>

record proto =
  proto_name :: "string option"
  proto_root :: "string option"
  proto_modulePrefix :: "string option"
  proto_methods :: "(string \<times> (tree \<Rightarrow> tree option)) list"

record addon =
  project :: nat
  registry :: registry
  didRequiredBuildPackages :: bool
  treePaths :: "string obj"
  treeForMethods :: "string obj"
  name :: "string option"
  root :: "string option"
  modulePrefix :: "string option"
  includedModules_memo :: "string list obj option"
  app :: "nat option"
  methods :: "(string \<times> (tree \<Rightarrow> tree option)) list"

text \<open>
  The constructor \<^verbatim>\<open>Addon(project)\<close>, run on an object whose prototype carries
  \<open>p\<close>. It stores the project, then calls \<^verbatim>\<open>p.setupRegistry(this)\<close>, and
  checks the name last. \<^verbatim>\<open>setupRegistry\<close> belongs to
  \<^verbatim>\<open>lib/preprocessors\<close>, which is not among the sources: it is a parameter,
  a function of what the object holds at that point (the prototype's properties and the
  project) that returns a registry or throws.
\<close>

definition Addon :: "proto \<Rightarrow> (proto \<Rightarrow> nat \<Rightarrow> error + registry) \<Rightarrow> nat \<Rightarrow> error + addon" where
  "Addon p setupRegistry proj =
     (case setupRegistry p proj of
        Inl err \<Rightarrow> Inl err
      | Inr reg \<Rightarrow>
     (let this = \<lparr>
            project = proj,
            registry = reg,
            didRequiredBuildPackages = False,
            treePaths = [
              (''app'', ''app''),
              (''styles'', ''app/styles''),
              (''templates'', ''app/templates''),
              (''addon'', ''addon''),
              (''addon-styles'', ''addon/styles''),
              (''addon-templates'', ''addon/templates''),
              (''vendor'', ''vendor''),
              (''test-support'', ''test-support''),
              (''public'', ''public'')],
            treeForMethods = [
              (''app'', ''treeForApp''),
              (''styles'', ''treeForStyles''),
              (''templates'', ''treeForTemplates''),
              (''addon'', ''treeForAddon''),
              (''vendor'', ''treeForVendor''),
              (''test-support'', ''treeForTestSupport''),
              (''public'', ''treeForPublic'')],
            name = proto_name p,
            root = proto_root p,
            modulePrefix = proto_modulePrefix p,
            includedModules_memo = None,
            app = None,
            methods = proto_methods p\<rparr>
      in if \<not> truthy (name this)
         then Inl (SilentError ''An addon must define a `name` property.'')
         else Inr this))"

definition requireBuildPackages :: "addon \<Rightarrow> addon" where
  "requireBuildPackages this =
     (if didRequiredBuildPackages this then this
      else this\<lparr>didRequiredBuildPackages := True\<rparr>)"

definition unwatchedTreeGenerator :: "string \<Rightarrow> tree" where
  "unwatchedTreeGenerator dir = UnwatchedTree dir"

definition isDevelopingAddon :: "env \<Rightarrow> bool" where
  "isDevelopingAddon e = (EMBER_ADDON_ENV e = Some ''development'')"

definition treeGenerator :: "env \<Rightarrow> string \<Rightarrow> tree" where
  "treeGenerator e dir = (if isDevelopingAddon e then Dir dir else unwatchedTreeGenerator dir)"

definition included :: "addon \<Rightarrow> nat \<Rightarrow> addon" where
  "included this a = this\<lparr>app := Some a\<rparr>"

definition moduleName :: "addon \<Rightarrow> error + (addon \<times> string)" where
  "moduleName this =
     (if \<not> truthy (modulePrefix this) then
        (case name this of
           None \<Rightarrow> Inl (TypeError ''Cannot read property toLowerCase of undefined'')
         | Some n \<Rightarrow>
             (let m = replace_whitespace (toLowerCase n)
              in Inr (this\<lparr>modulePrefix := Some m\<rparr>, m)))
      else Inr (this, ToString (modulePrefix this)))"

definition jsFileGlob :: "addon \<Rightarrow> string" where
  "jsFileGlob this =
     (let extListing = js_join ''|'' (extensionsForType_js (registry this))
      in ''**/*.+('' @ extListing @ '')'')"

text \<open>Sequencing of computations that may throw.\<close>

definition bindE :: "error + 'a \<Rightarrow> ('a \<Rightarrow> error + 'b) \<Rightarrow> error + 'b" where
  "bindE m f = (case m of Inl err \<Rightarrow> Inl err | Inr x \<Rightarrow> f x)"

text \<open>
  \<^verbatim>\<open>this.app\<close> followed by a property access: a type error when
  \<^verbatim>\<open>included\<close> has not set the application.
\<close>

definition owning_app :: "store \<Rightarrow> addon \<Rightarrow> error + (nat \<times> app)" where
  "owning_app st this =
     (case app this of
        None \<Rightarrow> Inl (TypeError ''Cannot read property of undefined'')
      | Some r \<Rightarrow>
          (case map_of st r of
             None \<Rightarrow> Inl (TypeError ''Cannot read property of undefined'')
           | Some a \<Rightarrow> Inr (r, a)))"

subsection \<open>Module discovery\<close>

text \<open>The reducer of \<^verbatim>\<open>includedModules\<close>, run over the paths that glob returned.\<close>

fun includedModules_reduce ::
  "string \<Rightarrow> addon \<Rightarrow> string list obj \<Rightarrow> string list \<Rightarrow> error + (addon \<times> string list obj)" where
  "includedModules_reduce treePath this ignored [] = Inr (this, ignored)"
| "includedModules_reduce treePath this ignored (filePath # rest) =
     bindE (moduleName this) (\<lambda>(this1, m).
       let modulePath = replace_str filePath treePath m;
           modulePath = slice_0_neg modulePath (length (extname modulePath))
       in includedModules_reduce treePath this1
            (AList.update modulePath [''default''] ignored) rest)"

definition includedModules :: "env \<Rightarrow> addon \<Rightarrow> error + (addon \<times> string list obj)" where
  "includedModules e this =
     (case includedModules_memo this of
        Some mods \<Rightarrow> Inr (this, mods)
      | None \<Rightarrow>
          bindE (path_join (root this) (map_of (treePaths this) ''addon'')) (\<lambda>p.
            let treePath = replace_backslashes p
            in bindE (path_join (Some treePath) (Some (jsFileGlob this))) (\<lambda>pattern.
                 bindE (includedModules_reduce treePath this [] (glob_sync e pattern))
                   (\<lambda>(this1, mods).
                     let this2 = this1\<lparr>includedModules_memo := Some mods\<rparr>
                     in bindE (moduleName this2) (\<lambda>(this3, m).
                          if map_of mods (m @ ''/index'') \<noteq> None then
                            bindE (moduleName this3) (\<lambda>(this4, m').
                              let mods' = AList.update m' [''default''] mods
                              in Inr (this4\<lparr>includedModules_memo := Some mods'\<rparr>, mods'))
                          else Inr (this3, mods))))))"

subsection \<open>Tree composition\<close>

definition addonJsFiles :: "addon \<Rightarrow> tree \<Rightarrow> error + (addon \<times> tree)" where
  "addonJsFiles this tree =
     (let this1 = requireBuildPackages this
      in bindE (moduleName this1) (\<lambda>(this2, m).
           let picked = PickFiles tree
                 \<lparr>srcDir = ''/'', files = Some [jsFileGlob this1], destDir = m,
                  allowEmpty = Some True\<rparr>
           in Inr (this2, PreprocessJs picked ''/'' (name this2) (registry this2))))"

definition treeForPublic :: "addon \<Rightarrow> tree \<Rightarrow> error + (addon \<times> tree option)" where
  "treeForPublic this tree =
     (let this1 = requireBuildPackages this
      in bindE (moduleName this1) (\<lambda>(this2, m).
           Inr (this2, Some (PickFiles tree
                 \<lparr>srcDir = ''/'', files = None, destDir = ''/'' @ m, allowEmpty = None\<rparr>))))"

definition compileStyles ::
  "store \<Rightarrow> addon \<Rightarrow> tree option \<Rightarrow> error + (addon \<times> tree option)" where
  "compileStyles st this tree =
     (let this1 = requireBuildPackages this
      in case tree of
           None \<Rightarrow> Inr (this1, None)
         | Some t \<Rightarrow>
             (let processedStyles = PreprocessCss t ''/'' ''/'' (registry this1)
              in bindE (owning_app st this1) (\<lambda>(r, a).
                   Inr (this1, Some (FileMover processedStyles
                     \<lparr>srcFile = ''/'' @ app_name a @ ''.css'',
                      destFile = ''/'' @ ToString (name this1) @ ''.css''\<rparr>)))))"

definition compileTemplates :: "addon \<Rightarrow> tree option \<Rightarrow> addon \<times> tree option" where
  "compileTemplates this tree =
     (let this1 = requireBuildPackages this
      in case tree of
           None \<Rightarrow> (this1, None)
         | Some t \<Rightarrow>
             (let standardTemplates = PickFiles t
                    \<lparr>srcDir = ''/'', files = None,
                     destDir = ToString (name this1) @ ''/templates'', allowEmpty = None\<rparr>;
                  podTemplates = PickFiles t
                    \<lparr>srcDir = ''/'', files = Some [''**/template.*''],
                     destDir = ToString (name this1) @ ''/'', allowEmpty = Some True\<rparr>
              in (this1, Some (PreprocessTemplates
                    (MergeTrees [standardTemplates, podTemplates]) (registry this1)))))"

text \<open>
  What \<^verbatim>\<open>this[treeForMethod]\<close> finds: a method of the addon's own, or one of
  the two methods of the base prototype. No property is named \<^verbatim>\<open>undefined\<close>,
  so a category without a method name finds nothing.
\<close>

datatype treeFor_method = OwnMethod "tree \<Rightarrow> tree option" | BaseTreeForAddon | BaseTreeForPublic

definition lookup_method :: "addon \<Rightarrow> string option \<Rightarrow> treeFor_method option" where
  "lookup_method this treeForMethod =
     (case treeForMethod of
        None \<Rightarrow> None
      | Some k \<Rightarrow>
          (case map_of (methods this) k of
             Some f \<Rightarrow> Some (OwnMethod f)
           | None \<Rightarrow>
               if k = ''treeForAddon'' then Some BaseTreeForAddon
               else if k = ''treeForPublic'' then Some BaseTreeForPublic
               else None))"

text \<open>
  The first half of \<^verbatim>\<open>_treeFor\<close>: the category's directory, wrapped by the
  tree generator when it exists.
\<close>

definition treeFor_directory :: "env \<Rightarrow> addon \<Rightarrow> string \<Rightarrow> error + tree option" where
  "treeFor_directory e this nm =
     bindE (path_join (root this) (map_of (treePaths this) nm)) (\<lambda>treePath.
       if existsSync e treePath then Inr (Some (treeGenerator e treePath)) else Inr None)"

text \<open>
  \<^verbatim>\<open>_treeFor\<close>, \<^verbatim>\<open>treeForAddon\<close> and \<^verbatim>\<open>compileAddon\<close> call each
  other: \<^verbatim>\<open>_treeFor\<close> calls the category's method, \<^verbatim>\<open>treeForAddon\<close> calls
  \<^verbatim>\<open>compileAddon\<close> and \<^verbatim>\<open>_treeFor('addon-styles')\<close>, and
  \<^verbatim>\<open>compileAddon\<close> calls \<^verbatim>\<open>_treeFor('addon-templates')\<close>. The two
  inner calls are \<open>private_treeFor_inner\<close>: the same function, except where the inner
  category's method is again the base \<^verbatim>\<open>treeForAddon\<close>. There the program
  re-enters the same call in the same state without end, which the engine reports as a
  range error. With the constructor's \<^verbatim>\<open>treeForMethods\<close> the two inner
  categories have no method at all.
\<close>

definition private_treeFor_inner ::
  "env \<Rightarrow> addon \<Rightarrow> string \<Rightarrow> error + (addon \<times> tree option)" where
  "private_treeFor_inner e this nm =
     bindE (treeFor_directory e this nm) (\<lambda>tree.
       case tree of
         None \<Rightarrow> Inr (this, None)
       | Some t \<Rightarrow>
           (case lookup_method this (map_of (treeForMethods this) nm) of
              None \<Rightarrow> Inr (this, Some t)
            | Some (OwnMethod f) \<Rightarrow> Inr (this, f t)
            | Some BaseTreeForPublic \<Rightarrow> treeForPublic this t
            | Some BaseTreeForAddon \<Rightarrow>
                Inl (RangeError ''Maximum call stack size exceeded'')))"

definition compileAddon ::
  "env \<Rightarrow> store \<Rightarrow> addon \<Rightarrow> tree \<Rightarrow> error + (store \<times> addon \<times> tree option)" where
  "compileAddon e st this tree =
     (let this1 = requireBuildPackages this
      in bindE (includedModules e this1) (\<lambda>(this2, mods).
           if length (Object_keys mods) = 0 then Inr (st, this2, None)
           else
             bindE (addonJsFiles this2 tree) (\<lambda>(this3, addonJs).
             bindE (private_treeFor_inner e this3 ''addon-templates'') (\<lambda>(this4, templatesDir).
               let (this5, templatesTree) = compileTemplates this4 templatesDir;
                   reexported = Reexport (name this5) ''__reexport.js'';
                   trees = filter_Boolean [Some addonJs, templatesTree, Some reexported]
               in bindE (owning_app st this5) (\<lambda>(r, a).
                  bindE (moduleName this5) (\<lambda>(this6, m).
                    let es6Tree = CompileES6 (MergeTrees trees)
                          \<lparr>ignoredModules = Object_keys (importWhitelist a) @ [m],
                           inputFiles = [ToString (name this6) @ ''/**/*.js''],
                           wrapInEval = opt_wrapInEval (options a),
                           outputFile = ''/'' @ ToString (name this6) @ ''.js'',
                           legacyFilesToAppend = [''__reexport.js'']\<rparr>
                    in bindE (includedModules e this6) (\<lambda>(this7, mods').
                         Inr (AList.update r
                                (a\<lparr>importWhitelist := assign (importWhitelist a) mods'\<rparr>) st,
                              this7, Some es6Tree))))))))"

definition treeForAddon ::
  "env \<Rightarrow> store \<Rightarrow> addon \<Rightarrow> tree \<Rightarrow> error + (store \<times> addon \<times> tree option)" where
  "treeForAddon e st this tree =
     (let this1 = requireBuildPackages this
      in bindE (compileAddon e st this1 tree) (\<lambda>(st1, this2, addonTree).
         bindE (private_treeFor_inner e this2 ''addon-styles'') (\<lambda>(this3, stylesDir).
         bindE (compileStyles st1 this3 stylesDir) (\<lambda>(this4, stylesTree).
           let jsTree =
                 (case addonTree of
                    None \<Rightarrow> None
                  | Some t \<Rightarrow> Some (ConcatFiles t
                      \<lparr>concat_inputFiles = [''**/*.js''],
                       concat_outputFile = ''/'' @ ToString (name this4) @ ''.js'',
                       allowNone = True\<rparr>))
           in Inr (st1, this4, Some (MergeTrees (filter_Boolean [jsTree, stylesTree])))))))"

definition private_treeFor ::
  "env \<Rightarrow> store \<Rightarrow> addon \<Rightarrow> string \<Rightarrow> error + (store \<times> addon \<times> tree option)" where
  "private_treeFor e st this nm =
     bindE (treeFor_directory e this nm) (\<lambda>tree.
       case tree of
         None \<Rightarrow> Inr (st, this, None)
       | Some t \<Rightarrow>
           (case lookup_method this (map_of (treeForMethods this) nm) of
              None \<Rightarrow> Inr (st, this, Some t)
            | Some (OwnMethod f) \<Rightarrow> Inr (st, this, f t)
            | Some BaseTreeForPublic \<Rightarrow>
                bindE (treeForPublic this t) (\<lambda>(this1, r). Inr (st, this1, r))
            | Some BaseTreeForAddon \<Rightarrow> treeForAddon e st this t))"

definition jshintAddonTree ::
  "env \<Rightarrow> store \<Rightarrow> addon \<Rightarrow> error + (addon \<times> tree option)" where
  "jshintAddonTree e st this =
     (let this1 = requireBuildPackages this;
          addonPath = map_of (treePaths this1) ''addon''
      in case addonPath of
           None \<Rightarrow> Inr (this1, None)
         | Some p \<Rightarrow>
             if \<not> existsSync e p then Inr (this1, None)
             else
               bindE (addonJsFiles this1 (Dir p)) (\<lambda>(this2, addonJs).
               bindE (owning_app st this2) (\<lambda>(r, a).
                 let jshintedAddon = JshintTrees addonJs
                       \<lparr>jshintrcPath = jshintrc_app (options a),
                        description = ''JSHint - Addon''\<rparr>
                 in Inr (this2, Some (PickFiles jshintedAddon
                      \<lparr>srcDir = ''/'', files = None,
                       destDir = ToString (name this2) @ ''/tests/'',
                       allowEmpty = None\<rparr>)))))"

definition treeFor ::
  "env \<Rightarrow> store \<Rightarrow> addon \<Rightarrow> string \<Rightarrow> error + (store \<times> addon \<times> tree)" where
  "treeFor e st this nm =
     (let this1 = requireBuildPackages this
      in bindE (private_treeFor e st this1 nm) (\<lambda>(st1, this2, tree).
           let trees = (case tree of None \<Rightarrow> [] | Some t \<Rightarrow> [Some t])
           in if isDevelopingAddon e then
                bindE (owning_app st1 this2) (\<lambda>(r, a).
                  if hinting a \<and> nm = ''app'' then
                    bindE (jshintAddonTree e st1 this2) (\<lambda>(this3, lint).
                      Inr (st1, this3, MergeTrees (filter_Boolean (trees @ [lint]))))
                  else Inr (st1, this2, MergeTrees (filter_Boolean trees)))
              else Inr (st1, this2, MergeTrees (filter_Boolean trees))))"

text \<open>
  A sequential pass over addons, a tree each: \<^verbatim>\<open>compileAddon\<close> is called on
  one after the other against the same store, and a throw ends the pass.
\<close>

fun compileAddon_pass ::
  "env \<Rightarrow> store \<Rightarrow> (addon \<times> tree) list \<Rightarrow> error + (store \<times> (addon \<times> tree option) list)" where
  "compileAddon_pass e st [] = Inr (st, [])"
| "compileAddon_pass e st ((this, tree) # rest) =
     bindE (compileAddon e st this tree) (\<lambda>(st1, this1, r).
       bindE (compileAddon_pass e st1 rest) (\<lambda>(st2, rs). Inr (st2, (this1, r) # rs)))"

text \<open>The store that a computation leaves, when it returns.\<close>

definition store_of :: "error + (store \<times> 'a) \<Rightarrow> store" where
  "store_of r = (case r of Inl err \<Rightarrow> [] | Inr x \<Rightarrow> fst x)"

text \<open>The whitelist of the application at an address.\<close>

definition whitelist_at :: "store \<Rightarrow> nat \<Rightarrow> string list obj" where
  "whitelist_at st r = (case map_of st r of None \<Rightarrow> [] | Some a \<Rightarrow> importWhitelist a)"

subsection \<open>Resolving and looking up an addon definition\<close>

text \<open>
  An addon reference: the package's directory and its manifest. The code reads
  \<^verbatim>\<open>addon.pkg['ember-addon'].main\<close> with no guard, so a reference always
  carries the \<^verbatim>\<open>ember-addon\<close> section; its \<^verbatim>\<open>main\<close> may be absent,
  as may the legacy field \<^verbatim>\<open>ember-addon-main\<close>.
\<close>

record ember_addon_section =
  main :: "string option"

record pkg =
  pkg_name :: string
  ember_addon_main :: "string option"
  ember_addon :: ember_addon_section

record addon_ref =
  path :: string
  pkg :: pkg

text \<open>
  Modelled from the spec: the utility \<^verbatim>\<open>deprecate(message, test)\<close> of
  \<^verbatim>\<open>lib/utilities/deprecate.js\<close> is not among the sources. It emits the notice
  \<open>message\<close>, without failing, when \<open>test\<close> is truthy, and nothing otherwise. The
  notices emitted are returned as a list.
\<close>

definition deprecate :: "string \<Rightarrow> string option \<Rightarrow> string list" where
  "deprecate message test = (if truthy test then [message] else [])"

definition deprecation_message :: "addon_ref \<Rightarrow> string" where
  "deprecation_message addon =
     pkg_name (pkg addon) @
     '' is using the deprecated ember-addon-main definition. It should be updated to {'' @
     [CHR 0x27] @ ''ember-addon'' @ [CHR 0x27] @ '': {'' @ [CHR 0x27] @ ''main'' @ [CHR 0x27] @
     '': '' @ [CHR 0x27] @ ToString (ember_addon_main (pkg addon)) @ [CHR 0x27] @ ''}}''"

definition resolvePath :: "string \<Rightarrow> addon_ref \<Rightarrow> string list \<times> string" where
  "resolvePath wd addon =
     (let notices = deprecate (deprecation_message addon) (ember_addon_main (pkg addon));
          addonMain =
            (if truthy (ember_addon_main (pkg addon)) then ToString (ember_addon_main (pkg addon))
             else if truthy (main (ember_addon (pkg addon)))
               then ToString (main (ember_addon (pkg addon)))
             else ''index.js'');
          addonMain = (if extname addonMain = [] then addonMain @ ''.js'' else addonMain)
      in (notices, path_resolve wd (path addon) addonMain))"

text \<open>
  What \<^verbatim>\<open>require(modulePath)\<close> does: it throws, or it yields a function, with
  the properties of its prototype, or any other value, with its properties and with
  whether \<^verbatim>\<open>root\<close> is a property of its own (its value may still be
  \<^verbatim>\<open>undefined\<close>). What \<^verbatim>\<open>lookup\<close> returns is a constructor: the
  module's function, or the base addon extended by a set of properties. Instantiating
  it, by \<^const>\<open>Addon\<close>, is left to the caller.
\<close>

datatype module_export = ExportsFunction proto | ExportsObject bool proto

datatype constructor = ModuleFunction (ctor_proto: proto) | AddonExtend (ctor_proto: proto)

text \<open>
  \<^verbatim>\<open>assign({root: moduleDir}, addonModule)\<close>: every own property of the module
  is copied over the default, also a \<^verbatim>\<open>root\<close> of its own that is undefined.
\<close>

definition lookup ::
  "env \<Rightarrow> (string \<Rightarrow> error + module_export) \<Rightarrow> addon_ref \<Rightarrow> string list \<times> (error + constructor)" where
  "lookup e require addon =
     (let (notices, modulePath) = resolvePath (cwd e) addon;
          moduleDir = dirname modulePath
      in (notices,
          if existsSync e modulePath then
            (case require modulePath of
               Inl err \<Rightarrow> Inl err
             | Inr (ExportsFunction p) \<Rightarrow>
                 Inr (ModuleFunction
                   (p\<lparr>proto_root := (if truthy (proto_root p) then proto_root p else Some moduleDir)\<rparr>))
             | Inr (ExportsObject own_root p) \<Rightarrow>
                 Inr (AddonExtend
                   (p\<lparr>proto_root := (if own_root then proto_root p else Some moduleDir)\<rparr>)))
          else
            Inr (AddonExtend
              \<lparr>proto_name = Some (''(generated '' @ pkg_name (pkg addon) @ '' addon)''),
               proto_root = Some moduleDir,
               proto_modulePrefix = None,
               proto_methods = []\<rparr>)))"

subsection \<open>What the methods leave alone\<close>

text \<open>
  The methods change three things in an addon: the flag of
  \<^verbatim>\<open>_requireBuildPackages\<close> and the two memoized values. \<open>same_definition\<close>
  says that two states of an addon agree on everything else.
\<close>

definition same_definition :: "addon \<Rightarrow> addon \<Rightarrow> bool" where
  "same_definition a b =
     (name b = name a \<and> root b = root a \<and> app b = app a \<and> registry b = registry a \<and>
      treePaths b = treePaths a \<and> treeForMethods b = treeForMethods a \<and>
      methods b = methods a \<and> project b = project a)"

subsection \<open>Canonical module names\<close>

text \<open>
  The module names in the words of the specification: the canonical name of a file at a
  relative path is the module name, a slash, and the relative path without its
  extension; \<open>canonical_modules\<close> enters a list of relative paths under their
  canonical names, each with the export list \<^verbatim>\<open>['default']\<close>.
\<close>

definition canonical_name :: "string \<Rightarrow> string \<Rightarrow> string" where
  "canonical_name m rel = m @ ''/'' @ take (length rel - length (extname rel)) rel"

definition canonical_modules :: "string \<Rightarrow> string list \<Rightarrow> string list obj \<Rightarrow> string list obj" where
  "canonical_modules m rels acc =
     foldl (\<lambda>ob rel. AList.update (canonical_name m rel) [''default''] ob) acc rels"

subsection \<open>Example objects\<close>

text \<open>
  A file system with an addon under \<^verbatim>\<open>/r\<close> whose source directory holds
  \<^verbatim>\<open>foo.js\<close>, \<^verbatim>\<open>bar/baz.js\<close> and \<^verbatim>\<open>index.js\<close>; an
  application named \<^verbatim>\<open>host\<close>; and the addon instance constructed from a
  definition with a given name and then included in that application.
\<close>

definition example_env :: env where
  "example_env =
     \<lparr>EMBER_ADDON_ENV = None,
      existsSync = (\<lambda>p. p \<in> set [''/r/index.js'', ''/r/addon.js'', ''/r/addon'', ''/r/addon/styles'', ''addon'']),
      glob_sync = (\<lambda>pat. if pat = ''/r/addon/**/*.+(js)''
                     then [''/r/addon/bar/baz.js'', ''/r/addon/foo.js'', ''/r/addon/index.js'']
                     else []),
      cwd = ''/w''\<rparr>"

definition example_app :: app where
  "example_app =
     \<lparr>app_name = ''host'', hinting = True,
      importWhitelist =
        [(''ember'', [''default'']),
         (''ic-ajax'', [''default'', ''defineFixture'', ''lookupFixture'', ''raw'', ''request''])],
      options = \<lparr>opt_wrapInEval = True, jshintrc_app = ''/w/.jshintrc''\<rparr>\<rparr>"

definition example_setupRegistry :: "proto \<Rightarrow> nat \<Rightarrow> error + registry" where
  "example_setupRegistry p proj = Inr (Registry [''js''])"

definition failing_setupRegistry :: "proto \<Rightarrow> nat \<Rightarrow> error + registry" where
  "failing_setupRegistry p proj =
     (if proj = 0 then Inl (TypeError ''Cannot read property of undefined'')
      else Inr (Registry [''js'']))"

definition example_proto :: "string \<Rightarrow> proto" where
  "example_proto n =
     \<lparr>proto_name = Some n, proto_root = Some ''/r'', proto_modulePrefix = None,
      proto_methods = []\<rparr>"

definition example_addon :: "string \<Rightarrow> addon" where
  "example_addon n =
     (case Addon (example_proto n) example_setupRegistry 1 of Inr this \<Rightarrow> included this 0)"

definition example_ref :: "string \<Rightarrow> string option \<Rightarrow> string option \<Rightarrow> addon_ref" where
  "example_ref dir legacy current =
     \<lparr>path = dir,
      pkg = \<lparr>pkg_name = ''pk'', ember_addon_main = legacy, ember_addon = \<lparr>main = current\<rparr>\<rparr>\<rparr>"

definition example_require :: "string \<Rightarrow> error + module_export" where
  "example_require modulePath =
     (if modulePath = ''/r/index.js'' then
        Inr (ExportsObject False
          \<lparr>proto_name = Some ''x'', proto_root = None, proto_modulePrefix = None, proto_methods = []\<rparr>)
      else Inl (SyntaxError ''Unexpected token''))"

section \<open>Properties\<close>

subsection \<open>Basic facts\<close>

lemma example_addon_fields:
  "n \<noteq> [] \<Longrightarrow> name (example_addon n) = Some n"
  "n \<noteq> [] \<Longrightarrow> root (example_addon n) = Some ''/r''"
  "n \<noteq> [] \<Longrightarrow> app (example_addon n) = Some 0"
  "n \<noteq> [] \<Longrightarrow> modulePrefix (example_addon n) = None"
  "n \<noteq> [] \<Longrightarrow> registry (example_addon n) = Registry [''js'']"
  by (simp_all add: example_addon_def example_proto_def Addon_def example_setupRegistry_def truthy_def included_def)

lemma requireBuildPackages_frame [simp]:
  "treePaths (requireBuildPackages this) = treePaths this"
  "treeForMethods (requireBuildPackages this) = treeForMethods this"
  "name (requireBuildPackages this) = name this"
  "root (requireBuildPackages this) = root this"
  "modulePrefix (requireBuildPackages this) = modulePrefix this"
  "includedModules_memo (requireBuildPackages this) = includedModules_memo this"
  "app (requireBuildPackages this) = app this"
  "methods (requireBuildPackages this) = methods this"
  "registry (requireBuildPackages this) = registry this"
  "project (requireBuildPackages this) = project this"
  by (simp_all add: requireBuildPackages_def)

lemma bindE_Inl [simp]: "bindE (Inl err) f = Inl err"
  by (simp add: bindE_def)

lemma bindE_Inr [simp]: "bindE (Inr x) f = f x"
  by (simp add: bindE_def)

lemma path_join_undefined [simp]:
  "path_join a None = Inl (TypeError ''Arguments to path.join must be strings'')"
  by (simp add: path_join_def split: option.splits)

lemma map_of_None_keys: "map_of ob k = None \<longleftrightarrow> k \<notin> set (Object_keys ob)"
  by (simp add: Object_keys_def map_of_eq_None_iff)

lemma is_whitespace_toLowerCase_char: "is_whitespace (toLowerCase_char c) = is_whitespace c"
  by (auto simp: is_whitespace_def toLowerCase_char_def)

lemma slug_nth:
  "replace_whitespace (toLowerCase n) =
     map (\<lambda>c. if is_whitespace c then CHR ''-'' else toLowerCase_char c) n"
  by (simp add: replace_whitespace_def toLowerCase_def is_whitespace_toLowerCase_char)

lemma moduleName_frame:
  assumes "moduleName this = Inr (this', m)"
  shows "name this' = name this" "registry this' = registry this" "app this' = app this"
    "root this' = root this" "treePaths this' = treePaths this"
    "treeForMethods this' = treeForMethods this" "methods this' = methods this"
    "includedModules_memo this' = includedModules_memo this"
    "didRequiredBuildPackages this' = didRequiredBuildPackages this"
  using assms by (auto simp: moduleName_def Let_def split: if_splits option.splits)

lemma moduleName_total:
  assumes "name this = Some n"
  shows "\<exists>this' m. moduleName this = Inr (this', m)"
  using assms by (simp add: moduleName_def Let_def)


lemma split_slash_aux_segment:
  "CHR ''/'' \<notin> set s \<Longrightarrow>
     split_slash_aux acc (s @ CHR ''/'' # rest) = (rev acc @ s) # split_slash_aux [] rest"
  by (induction s arbitrary: acc) auto

lemma split_slash_aux_segments:
  "list_all (\<lambda>s. CHR ''/'' \<notin> set s) segs \<Longrightarrow>
     split_slash_aux [] (concat (map (\<lambda>s. s @ ''/'') segs) @ rest) = segs @ split_slash_aux [] rest"
  by (induction segs) (auto simp: split_slash_aux_segment)

lemma absolute_of_slashes:
  "absolute_of segs @ CHR ''/'' # m @ ''/'' = CHR ''/'' # concat (map (\<lambda>s. s @ ''/'') (segs @ [m]))"
  by (induction segs) (auto simp: absolute_of_def)

lemma normalize_segments_plain:
  "list_all plain_segment ss \<Longrightarrow>
     normalize_segments b acc (ss @ rest) = normalize_segments b (rev ss @ acc) rest"
  by (induction ss arbitrary: acc) (auto simp: plain_segment_def)

lemma js_join_absolute_of:
  "xs \<noteq> [] \<Longrightarrow> CHR ''/'' # js_join ''/'' xs = absolute_of xs"
  by (induction "''/''" xs rule: js_join.induct) (auto simp: absolute_of_def)

lemma plain_no_slash: "list_all plain_segment ss \<Longrightarrow> list_all (\<lambda>s. CHR ''/'' \<notin> set s) ss"
  by (induction ss) (auto simp: plain_segment_def)

lemma path_resolve_plain:
  assumes segs: "list_all plain_segment segs" and ne: "segs \<noteq> []" and m: "plain_segment m"
  shows "path_resolve wd (absolute_of segs) m = absolute_of segs @ ''/'' @ m"
proof -
  let ?d = "absolute_of segs"
  from ne have dabs: "isAbsolute ?d" and dne: "?d \<noteq> []"
    by (cases segs; simp add: absolute_of_def isAbsolute_def)+
  from m have mrel: "\<not> isAbsolute (m @ ''/'')" and mne: "m \<noteq> []"
    by (cases m; auto simp: plain_segment_def isAbsolute_def)+
  have args: "resolve_args [m, ?d, wd] [] = ?d @ CHR ''/'' # m @ ''/''"
    using dabs dne mrel mne by (cases segs) (auto simp: isAbsolute_def absolute_of_def)
  have all: "list_all plain_segment (segs @ [m])" using segs m by simp
  have "split_slash (?d @ CHR ''/'' # m @ ''/'') = [] # (segs @ [m]) @ [[]]"
    unfolding absolute_of_slashes split_slash_def
    using split_slash_aux_segments [OF plain_no_slash [OF all], of "[]"] by simp
  moreover have "normalize_segments False [] ([] # (segs @ [m]) @ [[]]) = segs @ [m]"
    using normalize_segments_plain [OF all, of False "[]" "[[]]"] by simp
  ultimately have "normalizeString (?d @ CHR ''/'' # m @ ''/'') False = js_join ''/'' (segs @ [m])"
    by (simp add: normalizeString_def)
  moreover have "isAbsolute (?d @ CHR ''/'' # m @ ''/'')"
    using dabs by (cases ?d) (auto simp: isAbsolute_def)
  ultimately have "path_resolve wd ?d m = CHR ''/'' # js_join ''/'' (segs @ [m])"
    using args by (simp add: path_resolve_def Let_def)
  also have "\<dots> = absolute_of (segs @ [m])" by (rule js_join_absolute_of) simp
  also have "\<dots> = ?d @ ''/'' @ m" by (simp add: absolute_of_def)
  finally show ?thesis .
qed

lemma path_resolve_absolute:
  assumes "isAbsolute wd"
  shows "isAbsolute (path_resolve wd from to)"
proof -
  have "isAbsolute (resolve_args [to, from, wd] [])"
    using assms by (auto simp: isAbsolute_def split: list.splits)
  then show ?thesis by (simp add: path_resolve_def Let_def isAbsolute_def)
qed


lemma plain_segment_js: "plain_segment l \<Longrightarrow> plain_segment (l @ ''.js'')"
  by (cases l) (auto simp: plain_segment_def)

lemma extname_index_js: "extname ''index.js'' = ''.js''"
  by (simp add: extname_def basename_rev_def)

lemma plain_segment_index_js: "plain_segment ''index.js''"
  by (simp add: plain_segment_def)

subsection \<open>Facts about strings, paths and objects\<close>

lemma find_first_prefix: "find_first pat [] (pat @ rest) = Some ([], rest)"
proof (cases "pat @ rest")
  case Nil
  then show ?thesis by simp
next
  case (Cons a list)
  have "take (length pat) (pat @ rest) = pat" and "drop (length pat) (pat @ rest) = rest"
    by simp_all
  then have "take (length pat) (a # list) = pat" and "drop (length pat) (a # list) = rest"
    unfolding Cons by simp_all
  then have "find_first pat [] (a # list) = Some ([], rest)" by simp
  then show ?thesis unfolding Cons .
qed

lemma expand_replacement_plain:
  "CHR ''$'' \<notin> set repl \<Longrightarrow> expand_replacement pre matched post repl = repl"
  by (induction pre matched post repl rule: expand_replacement.induct) auto

lemma replace_str_prefix:
  "CHR ''$'' \<notin> set m \<Longrightarrow> replace_str (treePath @ rest) treePath m = m @ rest"
  by (simp add: replace_str_def find_first_prefix expand_replacement_plain)

lemma takeWhile_append_stop:
  "\<not> P y \<Longrightarrow> takeWhile P (xs @ y # ys) = takeWhile P xs"
  by (induction xs) auto

lemma basename_rev_under:
  assumes "basename_rev rel \<noteq> []"
  shows "basename_rev (m @ ''/'' @ rel) = basename_rev rel"
proof -
  have "dropWhile (\<lambda>c. c = CHR ''/'') (rev rel) \<noteq> []"
    using assms unfolding basename_rev_def
    by (cases "dropWhile (\<lambda>c. c = CHR ''/'') (rev rel)") simp_all
  then have "\<not> (\<forall>x\<in>set (rev rel). x = CHR ''/'')"
    unfolding dropWhile_eq_Nil_conv .
  then obtain x where x: "x \<in> set (rev rel)" "x \<noteq> CHR ''/''" by blast
  have d: "dropWhile (\<lambda>c. c = CHR ''/'') (rev rel @ CHR ''/'' # rev m) =
      dropWhile (\<lambda>c. c = CHR ''/'') (rev rel) @ CHR ''/'' # rev m"
    by (rule dropWhile_append1 [OF x(1)]) (rule x(2))
  have "rev (m @ ''/'' @ rel) = rev rel @ CHR ''/'' # rev m" by simp
  then have "basename_rev (m @ ''/'' @ rel) =
     takeWhile (\<lambda>c. c \<noteq> CHR ''/'') (dropWhile (\<lambda>c. c = CHR ''/'') (rev rel) @ CHR ''/'' # rev m)"
    unfolding basename_rev_def d [symmetric] by (rule arg_cong)
  also have "\<dots> = takeWhile (\<lambda>c. c \<noteq> CHR ''/'') (dropWhile (\<lambda>c. c = CHR ''/'') (rev rel))"
    by (rule takeWhile_append_stop) simp
  finally show ?thesis unfolding basename_rev_def .
qed

lemma extname_basename_rev: "extname rel \<noteq> [] \<Longrightarrow> basename_rev rel \<noteq> []"
  by (auto simp: extname_def Let_def)

lemma extname_under:
  "extname rel \<noteq> [] \<Longrightarrow> extname (m @ ''/'' @ rel) = extname rel"
  using basename_rev_under [OF extname_basename_rev, of rel m]
  by (simp add: extname_def)

lemma length_basename_rev: "length (basename_rev p) \<le> length p"
proof -
  have "length (basename_rev p) \<le> length (dropWhile (\<lambda>c. c = CHR ''/'') (rev p))"
    unfolding basename_rev_def by (rule length_takeWhile_le)
  also have "\<dots> \<le> length (rev p)" by (rule length_dropWhile_le)
  finally show ?thesis by simp
qed

lemma length_extname: "length (extname p) \<le> length p"
proof -
  have "length (takeWhile (\<lambda>c. c \<noteq> CHR ''.'') (basename_rev p)) \<le> length (basename_rev p)"
    by (rule length_takeWhile_le)
  then have "length (extname p) \<le> length (basename_rev p)"
    by (auto simp: extname_def Let_def)
  with length_basename_rev [of p] show ?thesis by simp
qed

lemma module_key:
  assumes "CHR ''$'' \<notin> set m" and "extname rel \<noteq> []"
  shows "slice_0_neg (replace_str (treePath @ ''/'' @ rel) treePath m)
           (length (extname (replace_str (treePath @ ''/'' @ rel) treePath m))) =
         canonical_name m rel"
proof -
  from assms(1) have r: "replace_str (treePath @ ''/'' @ rel) treePath m = m @ ''/'' @ rel"
    by (rule replace_str_prefix)
  from assms(2) have e: "extname (m @ ''/'' @ rel) = extname rel" by (rule extname_under)
  from length_extname [of rel]
  have "length (m @ ''/'' @ rel) - length (extname rel) =
        length m + 1 + (length rel - length (extname rel))" by simp
  then have "take (length (m @ ''/'' @ rel) - length (extname rel)) (m @ ''/'' @ rel) =
      m @ ''/'' @ take (length rel - length (extname rel)) rel"
    using length_extname [of rel] by (simp add: Suc_diff_le)
  with assms(2) show ?thesis
    unfolding r e by (simp add: slice_0_neg_def canonical_name_def)
qed

lemma moduleName_stable:
  assumes "moduleName this = Inr (this1, m)"
  shows "moduleName this1 = Inr (this1, m)"
  using assms
  by (auto simp: moduleName_def Let_def truthy_def ToString_def split: if_splits option.splits)

lemma includedModules_reduce_canonical:
  assumes "moduleName this1 = Inr (this1, m)" and "CHR ''$'' \<notin> set m"
    and "\<forall>rel\<in>set rels. extname rel \<noteq> []"
  shows "includedModules_reduce treePath this1 acc (map (\<lambda>rel. treePath @ ''/'' @ rel) rels) =
           Inr (this1, canonical_modules m rels acc)"
  using assms(3)
proof (induction rels arbitrary: acc)
  case Nil
  then show ?case by (simp add: canonical_modules_def)
next
  case (Cons rel rels)
  then have "extname rel \<noteq> []" and rest: "\<forall>rel\<in>set rels. extname rel \<noteq> []" by simp_all
  from module_key [OF assms(2) this(1), of treePath] Cons.IH [OF rest]
  show ?case using assms(1) by (simp add: bindE_def Let_def canonical_modules_def)
qed

lemma canonical_modules_keys:
  "set (Object_keys (canonical_modules m rels acc)) =
     set (Object_keys acc) \<union> canonical_name m ` set rels"
  unfolding canonical_modules_def Object_keys_def
  by (induction rels arbitrary: acc) (auto simp: AList.dom_update image_iff)

lemma canonical_modules_values:
  assumes "\<forall>k\<in>set (Object_keys acc). map_of acc k = Some [''default'']"
  shows "\<forall>k\<in>set (Object_keys (canonical_modules m rels acc)).
           map_of (canonical_modules m rels acc) k = Some [''default'']"
  using assms unfolding canonical_modules_def Object_keys_def
proof (induction rels arbitrary: acc)
  case Nil
  then show ?case by simp
next
  case (Cons rel rels)
  show ?case
    unfolding foldl_Cons
  proof (rule Cons.IH)
    show "\<forall>k\<in>set (map fst (AList.update (canonical_name m rel) [''default''] acc)).
            map_of (AList.update (canonical_name m rel) [''default''] acc) k = Some [''default'']"
      using Cons.prems by (auto simp: AList.update_conv' AList.dom_update)
  qed
qed

lemma canonical_modules_distinct:
  "distinct (Object_keys acc) \<Longrightarrow> distinct (Object_keys (canonical_modules m rels acc))"
  unfolding canonical_modules_def Object_keys_def
  by (induction rels arbitrary: acc) (auto simp: AList.distinct_update)

lemma includedModules_reduce_from:
  assumes mn: "moduleName this = Inr (this1, m)" and "CHR ''$'' \<notin> set m"
    and "\<forall>rel\<in>set rels. extname rel \<noteq> []"
  shows "includedModules_reduce treePath this acc (map (\<lambda>rel. treePath @ ''/'' @ rel) rels) =
           Inr (if rels = [] then this else this1, canonical_modules m rels acc)"
proof (cases rels)
  case Nil
  then show ?thesis by (simp add: canonical_modules_def)
next
  case (Cons rel rs)
  with assms(3) have e: "extname rel \<noteq> []" and rest: "\<forall>rel\<in>set rs. extname rel \<noteq> []"
    by simp_all
  note st = moduleName_stable [OF mn]
  from includedModules_reduce_canonical [OF st assms(2) rest, of treePath]
    module_key [OF assms(2) e, of treePath] mn
  show ?thesis unfolding Cons by (simp add: bindE_def Let_def canonical_modules_def)
qed

lemma moduleName_memo_update:
  "moduleName (this\<lparr>includedModules_memo := x\<rparr>) =
     (case moduleName this of
        Inl err \<Rightarrow> Inl err
      | Inr (t, m) \<Rightarrow> Inr (t\<lparr>includedModules_memo := x\<rparr>, m))"
  by (simp add: moduleName_def Let_def split: option.splits)

lemma bindE_Inr_iff: "bindE m f = Inr y \<longleftrightarrow> (\<exists>x. m = Inr x \<and> f x = Inr y)"
  by (cases m) (simp_all add: bindE_def)

lemma includedModules_reduce_frame:
  assumes "includedModules_reduce treePath this acc fs = Inr (this', mods)"
  shows "app this' = app this \<and> includedModules_memo this' = includedModules_memo this"
  using assms
proof (induction fs arbitrary: this acc)
  case Nil
  then show ?case by simp
next
  case (Cons f fs)
  from Cons.prems obtain this1 m where
    mn: "moduleName this = Inr (this1, m)" and
    rest: "includedModules_reduce treePath this1
             (AList.update
               (slice_0_neg (replace_str f treePath m) (length (extname (replace_str f treePath m))))
               [''default''] acc) fs = Inr (this', mods)"
    by (auto simp: bindE_Inr_iff Let_def)
  from Cons.IH [OF rest] moduleName_frame [OF mn] show ?case by simp
qed

lemma includedModules_result:
  assumes "includedModules e this = Inr (this', mods)"
  shows "includedModules_memo this' = Some mods \<and> app this' = app this"
proof (cases "includedModules_memo this")
  case (Some ms)
  with assms show ?thesis by (simp add: includedModules_def)
next
  case None
  with assms obtain p pattern this1 mods1 this3 m where
    red: "includedModules_reduce (replace_backslashes p) this [] (glob_sync e pattern) = Inr (this1, mods1)"
    and mn: "moduleName (this1\<lparr>includedModules_memo := Some mods1\<rparr>) = Inr (this3, m)"
    and fin: "(if map_of mods1 (m @ ''/index'') \<noteq> None then
                 bindE (moduleName this3) (\<lambda>(this4, m').
                   let mods' = AList.update m' [''default''] mods1
                   in Inr (this4\<lparr>includedModules_memo := Some mods'\<rparr>, mods'))
               else Inr (this3, mods1)) = Inr (this', mods)"
    by (auto simp: includedModules_def bindE_Inr_iff Let_def)
  note f1 = includedModules_reduce_frame [OF red]
  note f3 = moduleName_frame [OF mn]
  show ?thesis
  proof (cases "map_of mods1 (m @ ''/index'') \<noteq> None")
    case False
    with fin f1 f3 show ?thesis by simp
  next
    case True
    with fin obtain this4 m' where mn4: "moduleName this3 = Inr (this4, m')"
      and r: "this' = this4\<lparr>includedModules_memo := Some (AList.update m' [''default''] mods1)\<rparr>"
         "mods = AList.update m' [''default''] mods1"
      by (auto simp: bindE_Inr_iff Let_def)
    from moduleName_frame [OF mn4] f1 f3 r show ?thesis by simp
  qed
qed

lemma includedModules_again:
  assumes "includedModules e this = Inr (this', mods)"
  shows "includedModules e this' = Inr (this', mods)"
  using includedModules_result [OF assms] by (simp add: includedModules_def)

lemma addonJsFiles_frame:
  assumes "addonJsFiles this tree = Inr (this', t)"
  shows "app this' = app this \<and> includedModules_memo this' = includedModules_memo this"
proof -
  from assms obtain m where "moduleName (requireBuildPackages this) = Inr (this', m)"
    by (auto simp: addonJsFiles_def bindE_Inr_iff Let_def)
  from moduleName_frame [OF this] show ?thesis by simp
qed

lemma treeForPublic_frame:
  assumes "treeForPublic this tree = Inr (this', t)"
  shows "app this' = app this \<and> includedModules_memo this' = includedModules_memo this"
proof -
  from assms obtain m where "moduleName (requireBuildPackages this) = Inr (this', m)"
    by (auto simp: treeForPublic_def bindE_Inr_iff Let_def)
  from moduleName_frame [OF this] show ?thesis by simp
qed

lemma private_treeFor_inner_frame:
  assumes "private_treeFor_inner e this nm = Inr (this', t)"
  shows "app this' = app this \<and> includedModules_memo this' = includedModules_memo this"
proof -
  from assms obtain d where
    r: "(case d of
          None \<Rightarrow> Inr (this, None)
        | Some t \<Rightarrow>
            (case lookup_method this (map_of (treeForMethods this) nm) of
               None \<Rightarrow> Inr (this, Some t)
             | Some (OwnMethod f) \<Rightarrow> Inr (this, f t)
             | Some BaseTreeForPublic \<Rightarrow> treeForPublic this t
             | Some BaseTreeForAddon \<Rightarrow>
                 Inl (RangeError ''Maximum call stack size exceeded''))) = Inr (this', t)"
    by (auto simp: private_treeFor_inner_def bindE_Inr_iff)
  show ?thesis
  proof (cases d)
    case None
    with r show ?thesis by simp
  next
    case (Some t0)
    show ?thesis
    proof (cases "lookup_method this (map_of (treeForMethods this) nm)")
      case None
      with r Some show ?thesis by simp
    next
      case (Some meth)
      with r \<open>d = Some t0\<close> show ?thesis
        by (cases meth) (auto dest: treeForPublic_frame)
    qed
  qed
qed

lemma compileTemplates_frame:
  "app (fst (compileTemplates this tree)) = app this \<and>
   includedModules_memo (fst (compileTemplates this tree)) = includedModules_memo this"
  by (simp add: compileTemplates_def Let_def split: option.splits)

lemma assign_keys:
  "set (Object_keys (assign target source)) = set (Object_keys target) \<union> set (Object_keys source)"
  unfolding assign_def Object_keys_def
proof (induction source arbitrary: target)
  case Nil
  then show ?case by simp
next
  case (Cons kv source)
  obtain k v where kv: "kv = (k, v)" by (cases kv)
  have "set (map fst (foldl (\<lambda>t (k, v). AList.update k v t) (AList.update k v target) source)) =
        set (map fst (AList.update k v target)) \<union> set (map fst source)"
    by (rule Cons.IH)
  also have "set (map fst (AList.update k v target)) = {k} \<union> set (map fst target)"
    using AList.dom_update [of k v target] by simp
  finally show ?case unfolding kv by auto
qed

lemma assign_other:
  "k \<notin> set (Object_keys source) \<Longrightarrow> map_of (assign target source) k = map_of target k"
  unfolding assign_def Object_keys_def
  by (induction source arbitrary: target) (auto simp: AList.update_conv')

lemma assign_written:
  "k \<in> set (Object_keys source) \<Longrightarrow>
     \<exists>v. (k, v) \<in> set source \<and> map_of (assign target source) k = Some v"
  unfolding assign_def Object_keys_def
proof (induction source arbitrary: target)
  case Nil
  then show ?case by simp
next
  case (Cons kv source)
  obtain k' v' where kv: "kv = (k', v')" by (cases kv)
  show ?case
  proof (cases "k \<in> fst ` set source")
    case True
    then have "k \<in> set (map fst source)" by simp
    from Cons.IH [OF this, of "AList.update k' v' target"] show ?thesis
      unfolding kv by auto
  next
    case False
    with Cons.prems kv have "k = k'" by auto
    moreover from False have "k \<notin> set (Object_keys source)" by (simp add: Object_keys_def)
    then have "map_of (assign (AList.update k' v' target) source) k =
        map_of (AList.update k' v' target) k" by (rule assign_other)
    ultimately show ?thesis unfolding kv
      by (auto simp: assign_def AList.update_conv')
  qed
qed

lemma compileAddon_cases:
  assumes "compileAddon e st this tree = Inr (st', this', res)"
  shows "(res = None \<and> st' = st) \<or>
         (\<exists>r a mods m merged opts.
            app this = Some r \<and> map_of st r = Some a \<and>
            includedModules e this' = Inr (this', mods) \<and>
            st' = AList.update r (a\<lparr>importWhitelist := assign (importWhitelist a) mods\<rparr>) st \<and>
            res = Some (CompileES6 merged opts) \<and>
            ignoredModules opts = Object_keys (importWhitelist a) @ [m])"
proof -
  let ?this1 = "requireBuildPackages this"
  from assms obtain this2 mods0 where
    im: "includedModules e ?this1 = Inr (this2, mods0)" and
    r: "(if length (Object_keys mods0) = 0 then Inr (st, this2, None)
         else
           bindE (addonJsFiles this2 tree) (\<lambda>(this3, addonJs).
           bindE (private_treeFor_inner e this3 ''addon-templates'') (\<lambda>(this4, templatesDir).
             let (this5, templatesTree) = compileTemplates this4 templatesDir;
                 reexported = Reexport (name this5) ''__reexport.js'';
                 trees = filter_Boolean [Some addonJs, templatesTree, Some reexported]
             in bindE (owning_app st this5) (\<lambda>(r, a).
                bindE (moduleName this5) (\<lambda>(this6, m).
                  let es6Tree = CompileES6 (MergeTrees trees)
                        \<lparr>ignoredModules = Object_keys (importWhitelist a) @ [m],
                         inputFiles = [ToString (name this6) @ ''/**/*.js''],
                         wrapInEval = opt_wrapInEval (options a),
                         outputFile = ''/'' @ ToString (name this6) @ ''.js'',
                         legacyFilesToAppend = [''__reexport.js'']\<rparr>
                  in bindE (includedModules e this6) (\<lambda>(this7, mods').
                       Inr (AList.update r
                              (a\<lparr>importWhitelist := assign (importWhitelist a) mods'\<rparr>) st,
                            this7, Some es6Tree))))))) = Inr (st', this', res)"
    by (auto simp: compileAddon_def bindE_Inr_iff Let_def)
  show ?thesis
  proof (cases "length (Object_keys mods0) = 0")
    case True
    with r show ?thesis by simp
  next
    case False
    with r obtain this3 addonJs this4 templatesDir where
      js: "addonJsFiles this2 tree = Inr (this3, addonJs)" and
      td: "private_treeFor_inner e this3 ''addon-templates'' = Inr (this4, templatesDir)" and
      r2: "(let (this5, templatesTree) = compileTemplates this4 templatesDir;
                 reexported = Reexport (name this5) ''__reexport.js'';
                 trees = filter_Boolean [Some addonJs, templatesTree, Some reexported]
             in bindE (owning_app st this5) (\<lambda>(r, a).
                bindE (moduleName this5) (\<lambda>(this6, m).
                  let es6Tree = CompileES6 (MergeTrees trees)
                        \<lparr>ignoredModules = Object_keys (importWhitelist a) @ [m],
                         inputFiles = [ToString (name this6) @ ''/**/*.js''],
                         wrapInEval = opt_wrapInEval (options a),
                         outputFile = ''/'' @ ToString (name this6) @ ''.js'',
                         legacyFilesToAppend = [''__reexport.js'']\<rparr>
                  in bindE (includedModules e this6) (\<lambda>(this7, mods').
                       Inr (AList.update r
                              (a\<lparr>importWhitelist := assign (importWhitelist a) mods'\<rparr>) st,
                            this7, Some es6Tree))))) = Inr (st', this', res)"
      by (auto simp: bindE_Inr_iff)
    obtain this5 templatesTree where ct: "compileTemplates this4 templatesDir = (this5, templatesTree)"
      by (cases "compileTemplates this4 templatesDir")
    from r2 ct obtain r a this6 m mods where
      oa: "owning_app st this5 = Inr (r, a)" and
      mn: "moduleName this5 = Inr (this6, m)" and
      im2: "includedModules e this6 = Inr (this', mods)" and
      st': "st' = AList.update r (a\<lparr>importWhitelist := assign (importWhitelist a) mods\<rparr>) st" and
      res: "res = Some (CompileES6
              (MergeTrees (filter_Boolean [Some addonJs, templatesTree,
                 Some (Reexport (name this5) ''__reexport.js'')]))
              \<lparr>ignoredModules = Object_keys (importWhitelist a) @ [m],
               inputFiles = [ToString (name this6) @ ''/**/*.js''],
               wrapInEval = opt_wrapInEval (options a),
               outputFile = ''/'' @ ToString (name this6) @ ''.js'',
               legacyFilesToAppend = [''__reexport.js'']\<rparr>)"
      by (auto simp: bindE_Inr_iff Let_def)
    from oa have a5: "app this5 = Some r" and ma: "map_of st r = Some a"
      by (auto simp: owning_app_def split: option.splits)
    have "app this5 = app this"
      using includedModules_result [OF im] addonJsFiles_frame [OF js]
        private_treeFor_inner_frame [OF td] compileTemplates_frame [of this4 templatesDir] ct
      by simp
    with a5 have "app this = Some r" by simp
    moreover note ma includedModules_again [OF im2] st' res
    ultimately show ?thesis by auto
  qed
qed

lemma whitelist_at_update:
  "whitelist_at (AList.update r a st) r' =
     (if r' = r then importWhitelist a else whitelist_at st r')"
  by (simp add: whitelist_at_def AList.update_conv')

lemma compileAddon_keys_grow:
  assumes "compileAddon e st this tree = Inr (st', this', res)"
  shows "set (Object_keys (whitelist_at st r)) \<subseteq> set (Object_keys (whitelist_at st' r))"
  using compileAddon_cases [OF assms]
proof (elim disjE exE conjE)
  assume "res = None" and "st' = st"
  then show ?thesis by simp
next
  fix r0 a mods m merged opts
  assume "map_of st r0 = Some a"
    and "st' = AList.update r0 (a\<lparr>importWhitelist := assign (importWhitelist a) mods\<rparr>) st"
  then show ?thesis
    by (auto simp: whitelist_at_update assign_keys) (simp add: whitelist_at_def)
qed

lemma compileAddon_pass_keys_grow:
  assumes "compileAddon_pass e st ps = Inr (st', rs)"
  shows "set (Object_keys (whitelist_at st r)) \<subseteq> set (Object_keys (whitelist_at st' r))"
  using assms
proof (induction ps arbitrary: st rs)
  case Nil
  then show ?case by simp
next
  case (Cons p ps)
  obtain this tree where p: "p = (this, tree)" by (cases p)
  from Cons.prems obtain st1 this1 res rs' where
    c: "compileAddon e st this tree = Inr (st1, this1, res)" and
    rest: "compileAddon_pass e st1 ps = Inr (st', rs')"
    unfolding p by (auto simp: bindE_Inr_iff)
  from compileAddon_keys_grow [OF c, of r] Cons.IH [OF rest] show ?case by blast
qed

lemmas eval_defs =
  compileAddon_def includedModules_def addonJsFiles_def private_treeFor_inner_def
  treeFor_directory_def compileTemplates_def owning_app_def lookup_method_def
  Let_def example_env_def example_addon_def example_proto_def example_app_def
  Addon_def example_setupRegistry_def truthy_def included_def path_join_def path_normalize_def normalizeString_def
  split_slash_def isAbsolute_def replace_backslashes_def jsFileGlob_def bindE_def
  moduleName_def ToString_def replace_whitespace_def toLowerCase_def toLowerCase_char_def
  is_whitespace_def replace_str_def slice_0_neg_def extname_def basename_rev_def
  requireBuildPackages_def Object_keys_def assign_def filter_Boolean_def List.map_filter_simps
  treeGenerator_def isDevelopingAddon_def unwatchedTreeGenerator_def

lemma same_definition_refl [simp]: "same_definition a a"
  by (simp add: same_definition_def)

lemma same_definition_trans:
  "same_definition a b \<Longrightarrow> same_definition b c \<Longrightarrow> same_definition a c"
  by (simp add: same_definition_def)

lemma same_definition_requireBuildPackages [simp]:
  "same_definition this (requireBuildPackages this)"
  by (simp add: same_definition_def)

lemma moduleName_same:
  assumes "moduleName this = Inr (this', m)"
  shows "same_definition this this'"
  using assms by (auto simp: same_definition_def moduleName_def Let_def split: if_splits option.splits)

lemma includedModules_reduce_same:
  assumes "includedModules_reduce treePath this acc fs = Inr (this', mods)"
  shows "same_definition this this'"
  using assms
proof (induction fs arbitrary: this acc)
  case Nil
  then show ?case by simp
next
  case (Cons f fs)
  from Cons.prems obtain this1 m where
    mn: "moduleName this = Inr (this1, m)" and
    rest: "includedModules_reduce treePath this1
             (AList.update
               (slice_0_neg (replace_str f treePath m) (length (extname (replace_str f treePath m))))
               [''default''] acc) fs = Inr (this', mods)"
    by (auto simp: bindE_Inr_iff Let_def)
  from same_definition_trans [OF moduleName_same [OF mn] Cons.IH [OF rest]] show ?case .
qed

lemma same_definition_memo [simp]:
  "same_definition a (b\<lparr>includedModules_memo := x\<rparr>) = same_definition a b"
  "same_definition (a\<lparr>includedModules_memo := x\<rparr>) b = same_definition a b"
  by (simp_all add: same_definition_def)

lemma includedModules_same:
  assumes "includedModules e this = Inr (this', mods)"
  shows "same_definition this this'"
proof (cases "includedModules_memo this")
  case (Some ms)
  with assms show ?thesis by (simp add: includedModules_def)
next
  case None
  with assms obtain p pattern this1 mods1 this3 m where
    red: "includedModules_reduce (replace_backslashes p) this [] (glob_sync e pattern) = Inr (this1, mods1)"
    and mn: "moduleName (this1\<lparr>includedModules_memo := Some mods1\<rparr>) = Inr (this3, m)"
    and fin: "(if map_of mods1 (m @ ''/index'') \<noteq> None then
                 bindE (moduleName this3) (\<lambda>(this4, m').
                   let mods' = AList.update m' [''default''] mods1
                   in Inr (this4\<lparr>includedModules_memo := Some mods'\<rparr>, mods'))
               else Inr (this3, mods1)) = Inr (this', mods)"
    by (auto simp: includedModules_def bindE_Inr_iff Let_def)
  have s13: "same_definition this this3"
    using same_definition_trans [OF includedModules_reduce_same [OF red]] moduleName_same [OF mn]
    by simp
  show ?thesis
  proof (cases "map_of mods1 (m @ ''/index'') \<noteq> None")
    case False
    with fin s13 show ?thesis by simp
  next
    case True
    with fin obtain this4 m' where mn4: "moduleName this3 = Inr (this4, m')"
      and r: "this' = this4\<lparr>includedModules_memo := Some (AList.update m' [''default''] mods1)\<rparr>"
      by (auto simp: bindE_Inr_iff Let_def)
    from same_definition_trans [OF s13 moduleName_same [OF mn4]] r show ?thesis by simp
  qed
qed

lemma compileTemplates_same:
  "same_definition this (fst (compileTemplates this tree))"
  by (simp add: compileTemplates_def Let_def same_definition_def split: option.splits)

lemma treeFor_directory_same:
  "same_definition a b \<Longrightarrow> treeFor_directory e b nm = treeFor_directory e a nm"
  by (simp add: treeFor_directory_def same_definition_def)

lemma lookup_method_same:
  "same_definition a b \<Longrightarrow>
     lookup_method b (map_of (treeForMethods b) nm) = lookup_method a (map_of (treeForMethods a) nm)"
  by (simp add: lookup_method_def same_definition_def split: option.splits)

lemma compileAddon_short_circuit:
  assumes "includedModules e (requireBuildPackages this) = Inr (this2, [])"
  shows "compileAddon e st this tree = Inr (st, this2, None)"
  using assms by (simp add: compileAddon_def Let_def Object_keys_def)

lemma compileAddon_returns:
  assumes im: "includedModules e (requireBuildPackages this) = Inr (this2, mods)"
    and ne: "mods \<noteq> []"
    and nm: "name this = Some n"
    and ap: "app this = Some r" and ma: "map_of st r = Some a"
    and td: "treeFor_directory e this ''addon-templates'' = Inr d"
    and lm: "lookup_method this (map_of (treeForMethods this) ''addon-templates'') = None"
  shows "\<exists>this' merged opts m.
           compileAddon e st this tree =
             Inr (AList.update r (a\<lparr>importWhitelist := assign (importWhitelist a) mods\<rparr>) st,
                  this', Some (CompileES6 merged opts)) \<and>
           includedModules e this' = Inr (this', mods) \<and>
           ignoredModules opts = Object_keys (importWhitelist a) @ [m]"
proof -
  have s2: "same_definition this this2"
    using same_definition_trans [OF same_definition_requireBuildPackages includedModules_same [OF im]] .
  from includedModules_result [OF im] have memo2: "includedModules_memo this2 = Some mods" by simp
  from s2 nm have "name (requireBuildPackages this2) = Some n" by (simp add: same_definition_def)
  from moduleName_total [OF this] obtain this3 m3 where
    mn3: "moduleName (requireBuildPackages this2) = Inr (this3, m3)" by blast
  let ?addonJs = "PreprocessJs (PickFiles tree
        \<lparr>srcDir = ''/'', files = Some [jsFileGlob (requireBuildPackages this2)], destDir = m3,
         allowEmpty = Some True\<rparr>) ''/'' (name this3) (registry this3)"
  have js: "addonJsFiles this2 tree = Inr (this3, ?addonJs)"
    using mn3 by (simp add: addonJsFiles_def Let_def)
  have s3: "same_definition this this3"
    using same_definition_trans [OF s2]
      same_definition_trans [OF same_definition_requireBuildPackages moduleName_same [OF mn3]] .
  have memo3: "includedModules_memo this3 = Some mods"
    using moduleName_frame(8) [OF mn3] memo2 by simp
  have inner: "private_treeFor_inner e this3 ''addon-templates'' = Inr (this3, d)"
    using td lm treeFor_directory_same [OF s3] lookup_method_same [OF s3]
    by (simp add: private_treeFor_inner_def split: option.splits)
  obtain this5 tt where ct: "compileTemplates this3 d = (this5, tt)"
    by (cases "compileTemplates this3 d")
  have s5: "same_definition this this5"
    using same_definition_trans [OF s3 compileTemplates_same [of this3 d]] ct by simp
  have memo5: "includedModules_memo this5 = Some mods"
    using compileTemplates_frame [of this3 d] ct memo3 by simp
  from s5 ap ma have oa: "owning_app st this5 = Inr (r, a)"
    by (simp add: owning_app_def same_definition_def)
  from s5 nm have "name this5 = Some n" by (simp add: same_definition_def)
  from moduleName_total [OF this] obtain this6 m where
    mn6: "moduleName this5 = Inr (this6, m)" by blast
  have memo6: "includedModules_memo this6 = Some mods"
    using moduleName_frame(8) [OF mn6] memo5 by simp
  then have im6: "includedModules e this6 = Inr (this6, mods)"
    by (simp add: includedModules_def)
  from ne have len: "length (Object_keys mods) \<noteq> 0" by (simp add: Object_keys_def)
  have "compileAddon e st this tree =
      Inr (AList.update r (a\<lparr>importWhitelist := assign (importWhitelist a) mods\<rparr>) st, this6,
        Some (CompileES6
          (MergeTrees (filter_Boolean [Some ?addonJs, tt, Some (Reexport (name this5) ''__reexport.js'')]))
          \<lparr>ignoredModules = Object_keys (importWhitelist a) @ [m],
           inputFiles = [ToString (name this6) @ ''/**/*.js''],
           wrapInEval = opt_wrapInEval (options a),
           outputFile = ''/'' @ ToString (name this6) @ ''.js'',
           legacyFilesToAppend = [''__reexport.js'']\<rparr>))"
    using im len js inner ct oa mn6 im6 by (simp add: compileAddon_def Let_def)
  with im6 show ?thesis by force
qed

subsection \<open>Construction\<close>

text \<open>
  C6, as the code has it. The constructor sets up the registry before it checks the
  name. Where the registry setup throws for the project, construction fails with that
  error. Where it returns, constructing an addon whose \<^verbatim>\<open>name\<close> is absent or
  the empty string fails with the configuration error, and with a non-empty name
  construction succeeds and the instance carries that name, that project and that
  registry. So an absent or empty name never yields an instance, whatever the project.
\<close>

theorem Addon_name_checked_after_registry:
  "(\<forall>err. setupRegistry p proj = Inl err \<longrightarrow> Addon p setupRegistry proj = Inl err)
   \<and> (\<forall>reg. setupRegistry p proj = Inr reg \<longrightarrow>
        (proto_name p = None \<or> proto_name p = Some [] \<longrightarrow>
           Addon p setupRegistry proj =
             Inl (SilentError ''An addon must define a `name` property.''))
        \<and> (\<forall>n. proto_name p = Some n \<and> n \<noteq> [] \<longrightarrow>
              (\<exists>this. Addon p setupRegistry proj = Inr this \<and> name this = Some n \<and>
                 project this = proj \<and> registry this = reg)))
   \<and> (proto_name p = None \<or> proto_name p = Some [] \<longrightarrow>
        (\<exists>err. Addon p setupRegistry proj = Inl err))"
  by (cases "setupRegistry p proj") (auto simp: Addon_def truthy_def Let_def)

theorem Addon_name_checked_after_registry_witness:
  "Addon \<lparr>proto_name = None, proto_root = Some ''/r'', proto_modulePrefix = None, proto_methods = []\<rparr>
      example_setupRegistry 7 = Inl (SilentError ''An addon must define a `name` property.'')
   \<and> Addon \<lparr>proto_name = Some [], proto_root = Some ''/r'', proto_modulePrefix = None, proto_methods = []\<rparr>
      example_setupRegistry 7 = Inl (SilentError ''An addon must define a `name` property.'')
   \<and> (\<exists>this. Addon \<lparr>proto_name = Some ''x'', proto_root = Some ''/r'', proto_modulePrefix = None, proto_methods = []\<rparr>
      example_setupRegistry 7 = Inr this \<and> name this = Some ''x'' \<and> project this = 7 \<and>
      registry this = Registry [''js''])
   \<and> Addon \<lparr>proto_name = Some ''x'', proto_root = Some ''/r'', proto_modulePrefix = None, proto_methods = []\<rparr>
      failing_setupRegistry 0 = Inl (TypeError ''Cannot read property of undefined'')"
proof -
  have ok: "example_setupRegistry p 7 = Inr (Registry [''js''])" for p
    by (simp add: example_setupRegistry_def)
  have bad: "failing_setupRegistry p 0 = Inl (TypeError ''Cannot read property of undefined'')" for p
    by (simp add: failing_setupRegistry_def)
  note a = Addon_name_checked_after_registry [of example_setupRegistry
      "\<lparr>proto_name = None, proto_root = Some ''/r'', proto_modulePrefix = None, proto_methods = []\<rparr>" 7,
      THEN conjunct2, THEN conjunct1, rule_format, OF ok, THEN conjunct1]
  note b = Addon_name_checked_after_registry [of example_setupRegistry
      "\<lparr>proto_name = Some [], proto_root = Some ''/r'', proto_modulePrefix = None, proto_methods = []\<rparr>" 7,
      THEN conjunct2, THEN conjunct1, rule_format, OF ok, THEN conjunct1]
  note c = Addon_name_checked_after_registry [of example_setupRegistry
      "\<lparr>proto_name = Some ''x'', proto_root = Some ''/r'', proto_modulePrefix = None, proto_methods = []\<rparr>" 7,
      THEN conjunct2, THEN conjunct1, rule_format, OF ok, THEN conjunct2, rule_format, of "''x''"]
  note d = Addon_name_checked_after_registry [of failing_setupRegistry
      "\<lparr>proto_name = Some ''x'', proto_root = Some ''/r'', proto_modulePrefix = None, proto_methods = []\<rparr>" 0,
      THEN conjunct1, rule_format, OF bad]
  from a b c d show ?thesis by simp
qed

text \<open>
  C6 as stated fails for a project on which the registry setup throws: an addon
  without a name then fails with that error, not with the configuration error.
\<close>

theorem Addon_registry_error_counterexample:
  "Addon \<lparr>proto_name = None, proto_root = Some ''/r'', proto_modulePrefix = None, proto_methods = []\<rparr>
      failing_setupRegistry 0 = Inl (TypeError ''Cannot read property of undefined'')"
  by (simp add: Addon_def failing_setupRegistry_def)

text \<open>
  C8, as the code has it. Every instance, right after construction, has the same
  \<^verbatim>\<open>treePaths\<close>: nine category names (not seven), mapped to the nine relative
  paths, whatever the project argument.
\<close>

theorem treePaths_nine_categories:
  assumes "Addon p setupRegistry proj = Inr this"
  shows "treePaths this =
           [(''app'', ''app''), (''styles'', ''app/styles''), (''templates'', ''app/templates''),
            (''addon'', ''addon''), (''addon-styles'', ''addon/styles''),
            (''addon-templates'', ''addon/templates''), (''vendor'', ''vendor''),
            (''test-support'', ''test-support''), (''public'', ''public'')]
         \<and> length (Object_keys (treePaths this)) = 9
         \<and> distinct (Object_keys (treePaths this))"
  using assms
  by (auto simp: Addon_def Let_def Object_keys_def split: if_splits sum.splits)

theorem treePaths_nine_categories_witness:
  "\<exists>this. Addon \<lparr>proto_name = Some ''x'', proto_root = Some ''/r'', proto_modulePrefix = None, proto_methods = []\<rparr>
            example_setupRegistry 0 = Inr this \<and> length (Object_keys (treePaths this)) = 9
       \<and> map_of (treePaths this) ''addon-styles'' = Some ''addon/styles''"
proof -
  obtain this where c: "Addon \<lparr>proto_name = Some ''x'', proto_root = Some ''/r'', proto_modulePrefix = None, proto_methods = []\<rparr>
            example_setupRegistry 0 = Inr this"
    by (simp add: Addon_def example_setupRegistry_def truthy_def)
  from treePaths_nine_categories [OF c] have "length (Object_keys (treePaths this)) = 9
       \<and> map_of (treePaths this) ''addon-styles'' = Some ''addon/styles''"
    by (simp add: Object_keys_def)
  with c show ?thesis by blast
qed

text \<open>
  C8 as stated fails: the mapping of a constructed instance has nine keys, so it is not a
  mapping of exactly seven category names.
\<close>

theorem treePaths_seven_counterexample:
  "(case Addon \<lparr>proto_name = Some ''x'', proto_root = Some ''/r'', proto_modulePrefix = None, proto_methods = []\<rparr>
            example_setupRegistry 0 of
      Inl err \<Rightarrow> 0
    | Inr this \<Rightarrow> length (Object_keys (treePaths this))) = 9"
  by (simp add: Addon_def example_setupRegistry_def truthy_def Object_keys_def)

subsection \<open>The module name\<close>

text \<open>
  C7, as the code has it. For an addon with a non-empty name: when no module prefix is
  set (absent or empty), the first call of \<^verbatim>\<open>moduleName\<close> returns the name
  lowercased with every whitespace character replaced by a hyphen, and stores it; when
  the addon definition sets a non-empty module prefix, that prefix is returned as it is.
  Either way \<^verbatim>\<open>moduleName\<close> is idempotent: once it has returned a value, a
  later call returns the same value, whatever the name has been changed to in between.
  The name \<^verbatim>\<open>My Addon\<close> gives \<^verbatim>\<open>my-addon\<close>; a capital E with acute
  accent, a no-break space and X give a small e with acute accent, a hyphen and x.
  Names are strings of characters below U+0100.
\<close>

theorem moduleName_memoized:
  assumes "name this = Some n" and "n \<noteq> []"
  shows "(\<not> truthy (modulePrefix this) \<longrightarrow>
            moduleName this =
              Inr (this\<lparr>modulePrefix := Some (replace_whitespace (toLowerCase n))\<rparr>,
                   replace_whitespace (toLowerCase n)))
       \<and> (\<forall>pre. modulePrefix this = Some pre \<and> pre \<noteq> [] \<longrightarrow> moduleName this = Inr (this, pre))
       \<and> (\<forall>this1 m n'. moduleName this = Inr (this1, m) \<longrightarrow>
             moduleName (this1\<lparr>name := n'\<rparr>) = Inr (this1\<lparr>name := n'\<rparr>, m))
       \<and> replace_whitespace (toLowerCase n) =
            map (\<lambda>c. if is_whitespace c then CHR ''-'' else toLowerCase_char c) n
       \<and> replace_whitespace (toLowerCase ''My Addon'') = ''my-addon''
       \<and> replace_whitespace (toLowerCase [CHR 0xC9, CHR 0xA0, CHR ''X'']) =
            [CHR 0xE9, CHR ''-'', CHR ''x'']"
proof (intro conjI)
  show "\<not> truthy (modulePrefix this) \<longrightarrow>
            moduleName this =
              Inr (this\<lparr>modulePrefix := Some (replace_whitespace (toLowerCase n))\<rparr>,
                   replace_whitespace (toLowerCase n))"
    using assms by (simp add: moduleName_def Let_def)
  show "\<forall>pre. modulePrefix this = Some pre \<and> pre \<noteq> [] \<longrightarrow> moduleName this = Inr (this, pre)"
    by (simp add: moduleName_def truthy_def ToString_def)
  show "\<forall>this1 m n'. moduleName this = Inr (this1, m) \<longrightarrow>
             moduleName (this1\<lparr>name := n'\<rparr>) = Inr (this1\<lparr>name := n'\<rparr>, m)"
  proof (intro allI impI)
    fix this1 m n'
    assume r: "moduleName this = Inr (this1, m)"
    have "modulePrefix this1 = Some m \<and> m \<noteq> []"
    proof (cases "truthy (modulePrefix this)")
      case True
      with r show ?thesis
        by (auto simp: moduleName_def truthy_def ToString_def split: option.splits)
    next
      case False
      with r assms show ?thesis
        by (auto simp: moduleName_def Let_def replace_whitespace_def toLowerCase_def)
    qed
    then show "moduleName (this1\<lparr>name := n'\<rparr>) = Inr (this1\<lparr>name := n'\<rparr>, m)"
      by (simp add: moduleName_def truthy_def ToString_def)
  qed
  show "replace_whitespace (toLowerCase n) =
            map (\<lambda>c. if is_whitespace c then CHR ''-'' else toLowerCase_char c) n"
    by (rule slug_nth)
  show "replace_whitespace (toLowerCase ''My Addon'') = ''my-addon''"
    by (simp add: replace_whitespace_def toLowerCase_def toLowerCase_char_def is_whitespace_def)  show "replace_whitespace (toLowerCase [CHR 0xC9, CHR 0xA0, CHR ''X'']) =
            [CHR 0xE9, CHR ''-'', CHR ''x'']"
    by (simp add: replace_whitespace_def toLowerCase_def toLowerCase_char_def is_whitespace_def)
qed

theorem moduleName_memoized_witness:
  "\<exists>this this1. Addon \<lparr>proto_name = Some ''My Addon'', proto_root = Some ''/r'', proto_modulePrefix = None, proto_methods = []\<rparr> example_setupRegistry 0 = Inr this
     \<and> moduleName this = Inr (this1, ''my-addon'')
     \<and> moduleName (this1\<lparr>name := Some ''Other Name''\<rparr>) = Inr (this1\<lparr>name := Some ''Other Name''\<rparr>, ''my-addon'')"
proof -
  obtain this where c: "Addon \<lparr>proto_name = Some ''My Addon'', proto_root = Some ''/r'', proto_modulePrefix = None, proto_methods = []\<rparr> example_setupRegistry 0 = Inr this"
    and n: "name this = Some ''My Addon''" and p: "modulePrefix this = None"
    by (simp add: Addon_def example_setupRegistry_def truthy_def)
  have ne: "''My Addon'' \<noteq> []" by simp
  note th = moduleName_memoized [OF n ne]
  note first = th [THEN conjunct1]
  note again = th [THEN conjunct2, THEN conjunct2, THEN conjunct1]
  note slug = th [THEN conjunct2, THEN conjunct2, THEN conjunct2, THEN conjunct2, THEN conjunct1]
  from first p have 1: "moduleName this = Inr (this\<lparr>modulePrefix := Some ''my-addon''\<rparr>, ''my-addon'')"
    unfolding slug by (simp add: truthy_def)
  from again 1 have "moduleName (this\<lparr>modulePrefix := Some ''my-addon'', name := Some ''Other Name''\<rparr>)
      = Inr (this\<lparr>modulePrefix := Some ''my-addon'', name := Some ''Other Name''\<rparr>, ''my-addon'')"
    by blast
  with c 1 show ?thesis by blast
qed

text \<open>
  C7 as stated fails for an addon whose definition sets a module prefix: the first call
  returns the prefix, not the normalized name.
\<close>

theorem moduleName_preset_counterexample:
  "(case Addon \<lparr>proto_name = Some ''My Addon'', proto_root = Some ''/r'',
               proto_modulePrefix = Some ''Custom'', proto_methods = []\<rparr> example_setupRegistry 0 of
      Inl err \<Rightarrow> Inl err
    | Inr this \<Rightarrow> map_sum id snd (moduleName this)) = Inr ''Custom''
   \<and> replace_whitespace (toLowerCase ''My Addon'') = ''my-addon''"
  by (simp add: Addon_def example_setupRegistry_def truthy_def moduleName_def ToString_def
      replace_whitespace_def toLowerCase_def toLowerCase_char_def is_whitespace_def)

subsection \<open>Styles\<close>

text \<open>
  C10. Without a styles tree \<^verbatim>\<open>compileStyles\<close> returns nothing. With one,
  and the owning application set, it returns the CSS-preprocessed tree with one file
  moved: from \<^verbatim>\<open>/<owningApp.name>.css\<close>, named after the application, to
  \<^verbatim>\<open>/<addonName>.css\<close>.
\<close>

theorem compileStyles_renames_app_css:
  "compileStyles st this None = Inr (requireBuildPackages this, None)
   \<and> (\<forall>t r a n. app this = Some r \<and> map_of st r = Some a \<and> name this = Some n \<longrightarrow>
        compileStyles st this (Some t) =
          Inr (requireBuildPackages this,
               Some (FileMover (PreprocessCss t ''/'' ''/'' (registry this))
                 \<lparr>srcFile = ''/'' @ app_name a @ ''.css'', destFile = ''/'' @ n @ ''.css''\<rparr>)))"
  by (auto simp: compileStyles_def Let_def owning_app_def ToString_def)

theorem compileStyles_renames_app_css_witness:
  "compileStyles [(0, example_app)] (example_addon ''x'') None =
     Inr (requireBuildPackages (example_addon ''x''), None)
   \<and> compileStyles [(0, example_app)] (example_addon ''x'') (Some (UnwatchedTree ''/r/addon/styles'')) =
       Inr (requireBuildPackages (example_addon ''x''),
            Some (FileMover (PreprocessCss (UnwatchedTree ''/r/addon/styles'') ''/'' ''/'' (Registry [''js'']))
              \<lparr>srcFile = ''/host.css'', destFile = ''/x.css''\<rparr>))"
proof -
  have h: "app (example_addon ''x'') = Some 0 \<and> map_of [(0::nat, example_app)] 0 = Some example_app \<and>
           name (example_addon ''x'') = Some ''x''"
    by (simp add: example_addon_fields)
  note th = compileStyles_renames_app_css [of "[(0, example_app)]" "example_addon ''x''"]
  from th [THEN conjunct1] th [THEN conjunct2, rule_format, OF h, of "UnwatchedTree ''/r/addon/styles''"]
  show ?thesis by (simp add: example_addon_fields example_app_def)
qed

subsection \<open>Trees by category\<close>

text \<open>
  C3, as the code has it. For a category name that is not a key of
  \<^verbatim>\<open>treePaths\<close>, \<^verbatim>\<open>treeFor\<close> throws the type error of
  \<^verbatim>\<open>path.join\<close> and returns no tree, whatever the file system holds. The empty
  composite is what it returns for a known category whose directory does not exist,
  outside development mode.
\<close>

theorem treeFor_unknown_category_throws:
  "(nm \<notin> set (Object_keys (treePaths this)) \<longrightarrow>
      treeFor e st this nm = Inl (TypeError ''Arguments to path.join must be strings''))
   \<and> (\<forall>d rt p. map_of (treePaths this) nm = Some d \<and> root this = Some rt \<and>
         path_join (Some rt) (Some d) = Inr p \<and> \<not> existsSync e p \<and> \<not> isDevelopingAddon e \<longrightarrow>
         treeFor e st this nm = Inr (st, requireBuildPackages this, MergeTrees []))"
proof (intro conjI impI allI)
  assume "nm \<notin> set (Object_keys (treePaths this))"
  then have "map_of (treePaths this) nm = None" by (simp add: map_of_None_keys)
  then show "treeFor e st this nm = Inl (TypeError ''Arguments to path.join must be strings'')"
    by (simp add: treeFor_def private_treeFor_def treeFor_directory_def)
next
  fix d rt p
  assume "map_of (treePaths this) nm = Some d \<and> root this = Some rt \<and>
         path_join (Some rt) (Some d) = Inr p \<and> \<not> existsSync e p \<and> \<not> isDevelopingAddon e"
  then show "treeFor e st this nm = Inr (st, requireBuildPackages this, MergeTrees [])"
    by (simp add: treeFor_def private_treeFor_def treeFor_directory_def filter_Boolean_def
        List.map_filter_simps)
qed

theorem treeFor_unknown_category_throws_witness:
  "treeFor example_env [(0, example_app)] (example_addon ''x'') ''bogus'' =
     Inl (TypeError ''Arguments to path.join must be strings'')
   \<and> treeFor example_env [(0, example_app)] (example_addon ''x'') ''vendor'' =
     Inr ([(0, example_app)], requireBuildPackages (example_addon ''x''), MergeTrees [])"
proof -
  have k: "''bogus'' \<notin> set (Object_keys (treePaths (example_addon ''x'')))"
    by (simp add: example_addon_def example_proto_def Addon_def example_setupRegistry_def truthy_def included_def Object_keys_def)
  have v: "map_of (treePaths (example_addon ''x'')) ''vendor'' = Some ''vendor'' \<and>
        root (example_addon ''x'') = Some ''/r'' \<and>
        path_join (Some ''/r'') (Some ''vendor'') = Inr ''/r/vendor'' \<and>
        \<not> existsSync example_env ''/r/vendor'' \<and> \<not> isDevelopingAddon example_env"
    by (simp add: example_addon_def example_proto_def Addon_def example_setupRegistry_def truthy_def included_def
        example_env_def isDevelopingAddon_def path_join_def path_normalize_def normalizeString_def
        split_slash_def isAbsolute_def)
  note th = treeFor_unknown_category_throws [of "''bogus''" "example_addon ''x''" example_env "[(0, example_app)]"]
  note th2 = treeFor_unknown_category_throws [of "''vendor''" "example_addon ''x''" example_env "[(0, example_app)]"]
  from th [THEN conjunct1] k th2 [THEN conjunct2, rule_format, OF v] show ?thesis by blast
qed

text \<open>
  C3 as stated fails: for the unknown category \<^verbatim>\<open>bogus\<close> the result is an
  error, not the empty composite.
\<close>

theorem treeFor_unknown_counterexample:
  "treeFor example_env [(0, example_app)] (example_addon ''x'') ''bogus'' =
     Inl (TypeError ''Arguments to path.join must be strings'')"
  by (simp add: treeFor_def private_treeFor_def treeFor_directory_def
      example_addon_def example_proto_def Addon_def example_setupRegistry_def truthy_def included_def)

subsection \<open>Linting the addon\<close>

text \<open>
  C9, as the code has it. Let the owning application and the name be set, and let the
  working directory be the addon's root, so that the relative path
  \<^verbatim>\<open>treePaths['addon']\<close> that the code tests and lints is the addon's
  addon-source directory. When that directory does not exist,
  \<^verbatim>\<open>jshintAddonTree\<close> returns nothing. Otherwise it returns the lint results
  of the files of that directory that match the JS glob (picked under the module name
  and preprocessed), linted with the application's \<^verbatim>\<open>jshintrc.app\<close>, and
  relocated to \<^verbatim>\<open><name>/tests/\<close>: the addon's name as given, not its module
  name.
\<close>

theorem jshintAddonTree_rooted_at_name:
  assumes "app this = Some r" and "map_of st r = Some a" and "name this = Some n"
    and "map_of (treePaths this) ''addon'' = Some p"
    and "path_join (root this) (Some p) = Inr q"
    and "path_resolve (cwd e) [] p = q"
    and "existsSync e p = existsSync e (path_resolve (cwd e) [] p)"
  shows "(\<not> existsSync e q \<longrightarrow> jshintAddonTree e st this = Inr (requireBuildPackages this, None))
       \<and> (existsSync e q \<longrightarrow>
            (\<exists>this' m.
               moduleName (requireBuildPackages this) = Inr (this', m) \<and>
               jshintAddonTree e st this =
                 Inr (this',
                      Some (PickFiles
                        (JshintTrees
                          (PreprocessJs
                            (PickFiles (Dir p)
                              \<lparr>srcDir = ''/'', files = Some [jsFileGlob this], destDir = m,
                               allowEmpty = Some True\<rparr>)
                            ''/'' (Some n) (registry this))
                          \<lparr>jshintrcPath = jshintrc_app (options a),
                           description = ''JSHint - Addon''\<rparr>)
                        \<lparr>srcDir = ''/'', files = None, destDir = n @ ''/tests/'',
                         allowEmpty = None\<rparr>))))"
proof (intro conjI impI)
  from assms(6,7) have same: "existsSync e p = existsSync e q" by simp
  { assume "\<not> existsSync e q"
    with same assms(4) show "jshintAddonTree e st this = Inr (requireBuildPackages this, None)"
      by (simp add: jshintAddonTree_def) }
  { assume ex: "existsSync e q"
    let ?this1 = "requireBuildPackages this"
    from assms(3) have "name ?this1 = Some n" by simp
    from moduleName_total [OF this] obtain this' m where
      mn: "moduleName ?this1 = Inr (this', m)" by blast
    have twice: "requireBuildPackages ?this1 = ?this1"
      by (simp add: requireBuildPackages_def)
    have g: "jsFileGlob ?this1 = jsFileGlob this" by (simp add: jsFileGlob_def)
    from ex same assms(1-4) mn moduleName_frame [OF mn] twice g
    have "jshintAddonTree e st this =
              Inr (this',
                   Some (PickFiles
                     (JshintTrees
                       (PreprocessJs
                         (PickFiles (Dir p)
                           \<lparr>srcDir = ''/'', files = Some [jsFileGlob this], destDir = m,
                            allowEmpty = Some True\<rparr>)
                         ''/'' (Some n) (registry this))
                       \<lparr>jshintrcPath = jshintrc_app (options a),
                        description = ''JSHint - Addon''\<rparr>)
                     \<lparr>srcDir = ''/'', files = None, destDir = n @ ''/tests/'',
                      allowEmpty = None\<rparr>))"
      by (simp add: jshintAddonTree_def addonJsFiles_def owning_app_def ToString_def)
    with mn show "\<exists>this' m.
               moduleName (requireBuildPackages this) = Inr (this', m) \<and>
               jshintAddonTree e st this =
                 Inr (this',
                      Some (PickFiles
                        (JshintTrees
                          (PreprocessJs
                            (PickFiles (Dir p)
                              \<lparr>srcDir = ''/'', files = Some [jsFileGlob this], destDir = m,
                               allowEmpty = Some True\<rparr>)
                            ''/'' (Some n) (registry this))
                          \<lparr>jshintrcPath = jshintrc_app (options a),
                           description = ''JSHint - Addon''\<rparr>)
                        \<lparr>srcDir = ''/'', files = None, destDir = n @ ''/tests/'',
                         allowEmpty = None\<rparr>))"
      by blast }
qed

theorem jshintAddonTree_rooted_at_name_witness:
  "(\<exists>this'.
      jshintAddonTree (example_env\<lparr>cwd := ''/r''\<rparr>) [(0, example_app)] (example_addon ''My Addon'') =
        Inr (this',
             Some (PickFiles
               (JshintTrees
                 (PreprocessJs
                   (PickFiles (Dir ''addon'')
                     \<lparr>srcDir = ''/'', files = Some [''**/*.+(js)''], destDir = ''my-addon'',
                      allowEmpty = Some True\<rparr>)
                   ''/'' (Some ''My Addon'') (Registry [''js'']))
                 \<lparr>jshintrcPath = ''/w/.jshintrc'', description = ''JSHint - Addon''\<rparr>)
               \<lparr>srcDir = ''/'', files = None, destDir = ''My Addon/tests/'',
                allowEmpty = None\<rparr>)))
   \<and> jshintAddonTree (example_env\<lparr>cwd := ''/r'', existsSync := (\<lambda>p. False)\<rparr>) [(0, example_app)]
        (example_addon ''My Addon'') =
      Inr (requireBuildPackages (example_addon ''My Addon''), None)"
proof -
  let ?addon = "example_addon ''My Addon''"
  let ?e = "example_env\<lparr>cwd := ''/r''\<rparr>"
  let ?off = "example_env\<lparr>cwd := ''/r'', existsSync := (\<lambda>p. False)\<rparr>"
  have h: "app ?addon = Some 0" "map_of [(0::nat, example_app)] 0 = Some example_app"
    "name ?addon = Some ''My Addon''" "map_of (treePaths ?addon) ''addon'' = Some ''addon''"
    "path_join (root ?addon) (Some ''addon'') = Inr ''/r/addon''"
    by (simp_all add: example_addon_fields)
      (simp_all add: example_addon_def example_proto_def Addon_def example_setupRegistry_def
        truthy_def included_def path_join_def path_normalize_def normalizeString_def
        split_slash_def isAbsolute_def)
  have pe: "path_resolve (cwd ?e) [] ''addon'' = ''/r/addon''"
    "path_resolve (cwd ?off) [] ''addon'' = ''/r/addon''"
    by (simp_all add: path_resolve_def isAbsolute_def normalizeString_def split_slash_def)
  have co: "existsSync ?e ''addon'' = existsSync ?e (path_resolve (cwd ?e) [] ''addon'')"
    "existsSync ?off ''addon'' = existsSync ?off (path_resolve (cwd ?off) [] ''addon'')"
    unfolding pe by (simp_all add: example_env_def)
  have ex1: "existsSync ?e ''/r/addon''"
    by (simp add: example_env_def)
  have ex2: "\<not> existsSync ?off ''/r/addon''"
    by simp
  note ex = ex1 ex2
  have mn: "moduleName (requireBuildPackages ?addon) = Inr (this', m) \<Longrightarrow> m = ''my-addon''" for this' m
    by (auto simp: moduleName_def example_addon_fields truthy_def Let_def
        replace_whitespace_def toLowerCase_def toLowerCase_char_def is_whitespace_def)
  have gl: "jsFileGlob ?addon = ''**/*.+(js)''" "registry ?addon = Registry [''js'']"
    "options example_app = \<lparr>opt_wrapInEval = True, jshintrc_app = ''/w/.jshintrc''\<rparr>"
    by (simp_all add: jsFileGlob_def example_addon_fields example_app_def)
  from jshintAddonTree_rooted_at_name [OF h pe(1) co(1), THEN conjunct2, rule_format, OF ex(1)]
  obtain this' m where
    m: "moduleName (requireBuildPackages ?addon) = Inr (this', m)" and
    t: "jshintAddonTree ?e [(0, example_app)] ?addon =
          Inr (this',
               Some (PickFiles
                 (JshintTrees
                   (PreprocessJs
                     (PickFiles (Dir ''addon'')
                       \<lparr>srcDir = ''/'', files = Some [jsFileGlob ?addon], destDir = m,
                        allowEmpty = Some True\<rparr>)
                     ''/'' (Some ''My Addon'') (registry ?addon))
                   \<lparr>jshintrcPath = jshintrc_app (options example_app),
                    description = ''JSHint - Addon''\<rparr>)
                 \<lparr>srcDir = ''/'', files = None, destDir = ''My Addon'' @ ''/tests/'',
                  allowEmpty = None\<rparr>))"
    by blast
  from t mn [OF m] gl have 1: "\<exists>this'.
      jshintAddonTree ?e [(0, example_app)] ?addon =
        Inr (this',
             Some (PickFiles
               (JshintTrees
                 (PreprocessJs
                   (PickFiles (Dir ''addon'')
                     \<lparr>srcDir = ''/'', files = Some [''**/*.+(js)''], destDir = ''my-addon'',
                      allowEmpty = Some True\<rparr>)
                   ''/'' (Some ''My Addon'') (Registry [''js'']))
                 \<lparr>jshintrcPath = ''/w/.jshintrc'', description = ''JSHint - Addon''\<rparr>)
               \<lparr>srcDir = ''/'', files = None, destDir = ''My Addon/tests/'',
                allowEmpty = None\<rparr>))"
    by simp
  from jshintAddonTree_rooted_at_name [OF h pe(2) co(2), THEN conjunct1, rule_format, OF ex(2)]
  have 2: "jshintAddonTree ?off [(0, example_app)] ?addon = Inr (requireBuildPackages ?addon, None)" .
  from 1 2 show ?thesis by blast
qed

text \<open>
  C9 as stated fails for the addon named \<^verbatim>\<open>My Addon\<close>, whose module name is
  \<^verbatim>\<open>my-addon\<close>: the lint tree is rooted at \<^verbatim>\<open>My Addon/tests/\<close>.
\<close>

theorem jshintAddonTree_moduleName_counterexample:
  "map_sum id snd (jshintAddonTree example_env [(0, example_app)] (example_addon ''My Addon'')) =
     Inr (Some (PickFiles
       (JshintTrees
         (PreprocessJs
           (PickFiles (Dir ''addon'')
             \<lparr>srcDir = ''/'', files = Some [''**/*.+(js)''], destDir = ''my-addon'',
              allowEmpty = Some True\<rparr>)
           ''/'' (Some ''My Addon'') (Registry [''js'']))
         \<lparr>jshintrcPath = ''/w/.jshintrc'', description = ''JSHint - Addon''\<rparr>)
       \<lparr>srcDir = ''/'', files = None, destDir = ''My Addon/tests/'', allowEmpty = None\<rparr>))
   \<and> map_sum id snd (moduleName (example_addon ''My Addon'')) = Inr ''my-addon''"
  by (simp add: jshintAddonTree_def addonJsFiles_def owning_app_def ToString_def moduleName_def
      example_addon_def example_proto_def Addon_def example_setupRegistry_def truthy_def included_def example_env_def
      example_app_def jsFileGlob_def requireBuildPackages_def Let_def
      replace_whitespace_def toLowerCase_def toLowerCase_char_def is_whitespace_def)

subsection \<open>Resolving the entry point\<close>

text \<open>
  C4, as the code has it. \<^verbatim>\<open>resolvePath\<close> takes the legacy field
  \<^verbatim>\<open>ember-addon-main\<close> when it is set, and then emits one deprecation notice,
  which starts with the package's name; otherwise it takes the current field
  \<^verbatim>\<open>main\<close> of the \<^verbatim>\<open>ember-addon\<close> section; otherwise
  \<^verbatim>\<open>index.js\<close>; in the last two cases no notice is emitted. It appends
  \<^verbatim>\<open>.js\<close> exactly when the chosen path has no extension and resolves the
  result against the addon's directory, which gives an absolute path. For a directory
  in plain absolute form: with only a legacy field that is a plain name without
  extension the result is \<^verbatim>\<open><dir>/<legacyMain>.js\<close>, with a notice, and with no
  field it is \<^verbatim>\<open><dir>/index.js\<close>.
\<close>

theorem resolvePath_legacy_first:
  "(\<forall>l. ember_addon_main (pkg addon) = Some l \<and> l \<noteq> [] \<longrightarrow>
       resolvePath wd addon =
         ([deprecation_message addon],
          path_resolve wd (path addon) (if extname l = [] then l @ ''.js'' else l)))
   \<and> (\<not> truthy (ember_addon_main (pkg addon)) \<longrightarrow>
        (\<forall>c. main (ember_addon (pkg addon)) = Some c \<and> c \<noteq> [] \<longrightarrow>
           resolvePath wd addon =
             ([], path_resolve wd (path addon) (if extname c = [] then c @ ''.js'' else c)))
        \<and> (\<not> truthy (main (ember_addon (pkg addon))) \<longrightarrow>
             resolvePath wd addon = ([], path_resolve wd (path addon) ''index.js'')))
   \<and> (\<exists>rest. deprecation_message addon = pkg_name (pkg addon) @ rest)
   \<and> (isAbsolute wd \<longrightarrow> isAbsolute (snd (resolvePath wd addon)))
   \<and> (\<forall>segs. list_all plain_segment segs \<and> segs \<noteq> [] \<and> path addon = absolute_of segs \<and>
          main (ember_addon (pkg addon)) = None \<longrightarrow>
          (\<forall>l. ember_addon_main (pkg addon) = Some l \<and> plain_segment l \<and> extname l = [] \<longrightarrow>
             resolvePath wd addon = ([deprecation_message addon], path addon @ ''/'' @ l @ ''.js''))
          \<and> (ember_addon_main (pkg addon) = None \<longrightarrow>
               resolvePath wd addon = ([], path addon @ ''/index.js'')))"
proof (intro conjI allI impI)
  fix l assume "ember_addon_main (pkg addon) = Some l \<and> l \<noteq> []"
  then show "resolvePath wd addon =
         ([deprecation_message addon],
          path_resolve wd (path addon) (if extname l = [] then l @ ''.js'' else l))"
    by (simp add: resolvePath_def deprecate_def truthy_def ToString_def Let_def)
next
  fix c assume "\<not> truthy (ember_addon_main (pkg addon))"
    and "main (ember_addon (pkg addon)) = Some c \<and> c \<noteq> []"
  then show "resolvePath wd addon =
             ([], path_resolve wd (path addon) (if extname c = [] then c @ ''.js'' else c))"
    by (simp add: resolvePath_def deprecate_def truthy_def ToString_def Let_def)
next
  assume "\<not> truthy (ember_addon_main (pkg addon))"
    and "\<not> truthy (main (ember_addon (pkg addon)))"
  then show "resolvePath wd addon = ([], path_resolve wd (path addon) ''index.js'')"
    by (simp add: resolvePath_def deprecate_def Let_def extname_index_js)
next
  show "\<exists>rest. deprecation_message addon = pkg_name (pkg addon) @ rest"
    by (simp add: deprecation_message_def)
next
  assume "isAbsolute wd"
  then show "isAbsolute (snd (resolvePath wd addon))"
    by (simp add: resolvePath_def Let_def path_resolve_absolute)
next
  fix segs l
  assume d: "list_all plain_segment segs \<and> segs \<noteq> [] \<and> path addon = absolute_of segs \<and>
          main (ember_addon (pkg addon)) = None"
    and l: "ember_addon_main (pkg addon) = Some l \<and> plain_segment l \<and> extname l = []"
  then have "l \<noteq> []" by (simp add: plain_segment_def)
  moreover from d l have "path_resolve wd (path addon) (l @ ''.js'') = path addon @ ''/'' @ l @ ''.js''"
    using path_resolve_plain [of segs "l @ ''.js''" wd] by (simp add: plain_segment_js)
  ultimately show "resolvePath wd addon = ([deprecation_message addon], path addon @ ''/'' @ l @ ''.js'')"
    using l by (simp add: resolvePath_def deprecate_def truthy_def ToString_def Let_def)
next
  fix segs
  assume d: "list_all plain_segment segs \<and> segs \<noteq> [] \<and> path addon = absolute_of segs \<and>
          main (ember_addon (pkg addon)) = None"
    and l: "ember_addon_main (pkg addon) = None"
  from d have "path_resolve wd (path addon) ''index.js'' = path addon @ ''/index.js''"
    using path_resolve_plain [of segs "''index.js''" wd] by (simp add: plain_segment_index_js)
  then show "resolvePath wd addon = ([], path addon @ ''/index.js'')"
    using d l by (simp add: resolvePath_def deprecate_def truthy_def Let_def extname_index_js)
qed

theorem resolvePath_legacy_first_witness:
  "resolvePath ''/w'' (example_ref ''/n/pk'' (Some ''old'') None) =
     ([deprecation_message (example_ref ''/n/pk'' (Some ''old'') None)], ''/n/pk/old.js'')
   \<and> resolvePath ''/w'' (example_ref ''/n/pk'' None None) = ([], ''/n/pk/index.js'')
   \<and> resolvePath ''/w'' (example_ref ''/n/pk'' None (Some ''lib/main.js'')) = ([], ''/n/pk/lib/main.js'')
   \<and> isAbsolute (snd (resolvePath ''/w'' (example_ref ''/n/pk'' None (Some ''../x''))))"
proof -
  have segs: "list_all plain_segment [''n'', ''pk''] \<and> [''n'', ''pk''] \<noteq> [] \<and>
      path (example_ref ''/n/pk'' (Some ''old'') None) = absolute_of [''n'', ''pk''] \<and>
      main (ember_addon (pkg (example_ref ''/n/pk'' (Some ''old'') None))) = None"
    by (simp add: plain_segment_def absolute_of_def example_ref_def)
  have old: "ember_addon_main (pkg (example_ref ''/n/pk'' (Some ''old'') None)) = Some ''old'' \<and>
      plain_segment ''old'' \<and> extname ''old'' = []"
    by (simp add: plain_segment_def example_ref_def extname_def basename_rev_def)
  have segs': "list_all plain_segment [''n'', ''pk''] \<and> [''n'', ''pk''] \<noteq> [] \<and>
      path (example_ref ''/n/pk'' None None) = absolute_of [''n'', ''pk''] \<and>
      main (ember_addon (pkg (example_ref ''/n/pk'' None None))) = None"
    by (simp add: plain_segment_def absolute_of_def example_ref_def)
  have none: "ember_addon_main (pkg (example_ref ''/n/pk'' None None)) = None"
    by (simp add: example_ref_def)
  note last = conjunct2 [OF conjunct2 [OF conjunct2 [OF conjunct2]]]
  have 1: "resolvePath ''/w'' (example_ref ''/n/pk'' (Some ''old'') None) =
     ([deprecation_message (example_ref ''/n/pk'' (Some ''old'') None)], ''/n/pk/old.js'')"
    using resolvePath_legacy_first [of "example_ref ''/n/pk'' (Some ''old'') None" "''/w''",
        THEN last, rule_format, OF segs, THEN conjunct1, rule_format, OF old]
    by (simp add: example_ref_def)
  have 2: "resolvePath ''/w'' (example_ref ''/n/pk'' None None) = ([], ''/n/pk/index.js'')"
    using resolvePath_legacy_first [of "example_ref ''/n/pk'' None None" "''/w''",
        THEN last, rule_format, OF segs', THEN conjunct2, rule_format, OF none]
    by (simp add: example_ref_def)
  have cur: "\<not> truthy (ember_addon_main (pkg (example_ref ''/n/pk'' None (Some ''lib/main.js''))))"
    "main (ember_addon (pkg (example_ref ''/n/pk'' None (Some ''lib/main.js'')))) = Some ''lib/main.js'' \<and> ''lib/main.js'' \<noteq> []"
    by (simp_all add: example_ref_def truthy_def)
  have 3: "resolvePath ''/w'' (example_ref ''/n/pk'' None (Some ''lib/main.js'')) = ([], ''/n/pk/lib/main.js'')"
    using resolvePath_legacy_first [of "example_ref ''/n/pk'' None (Some ''lib/main.js'')" "''/w''",
        THEN conjunct2, THEN conjunct1, rule_format, OF cur(1), THEN conjunct1, rule_format, OF cur(2)]
    by (simp add: example_ref_def extname_def basename_rev_def path_resolve_def isAbsolute_def
        normalizeString_def split_slash_def)
  have w: "isAbsolute ''/w''" by (simp add: isAbsolute_def)
  have 4: "isAbsolute (snd (resolvePath ''/w'' (example_ref ''/n/pk'' None (Some ''../x''))))"
    using resolvePath_legacy_first [of "example_ref ''/n/pk'' None (Some ''../x'')" "''/w''",
        THEN conjunct2, THEN conjunct2, THEN conjunct2, THEN conjunct1, rule_format, OF w] .
  from 1 2 3 4 show ?thesis by blast
qed

text \<open>
  C4 as stated fails when both fields are set: the legacy field wins, not the current one.
\<close>

theorem resolvePath_current_first_counterexample:
  "resolvePath ''/w'' (example_ref ''/n/pk'' (Some ''old'') (Some ''new.js'')) =
     ([deprecation_message (example_ref ''/n/pk'' (Some ''old'') (Some ''new.js''))], ''/n/pk/old.js'')"
  by (simp add: resolvePath_def deprecate_def truthy_def ToString_def Let_def example_ref_def
      extname_def basename_rev_def path_resolve_def isAbsolute_def normalizeString_def
      split_slash_def)

subsection \<open>Looking up the definition\<close>

text \<open>
  C5, as the code has it. When the resolved entry file does not exist,
  \<^verbatim>\<open>lookup\<close> returns the base addon extended with the name
  \<^verbatim>\<open>(generated <packageName> addon)\<close> and with the entry point's directory as
  root; instantiating that constructor, where the registry setup returns, gives an
  instance with that name and root. When the file exists and loading it throws,
  \<^verbatim>\<open>lookup\<close> throws that error. When loading returns a function, the result
  is that function with a falsy root replaced by the directory; when it returns
  anything else, the result is the base addon extended by the module's properties, with
  the directory as root unless the module has a \<^verbatim>\<open>root\<close> of its own. What is
  returned is in every case a constructor, not an instance.
\<close>

theorem lookup_returns_constructor:
  "\<forall>notices modulePath. resolvePath (cwd e) addon = (notices, modulePath) \<longrightarrow>
      (\<not> existsSync e modulePath \<longrightarrow>
         lookup e require addon =
           (notices,
            Inr (AddonExtend
              \<lparr>proto_name = Some (''(generated '' @ pkg_name (pkg addon) @ '' addon)''),
               proto_root = Some (dirname modulePath),
               proto_modulePrefix = None, proto_methods = []\<rparr>))
         \<and> (\<forall>setupRegistry proj reg c.
               snd (lookup e require addon) = Inr c \<and>
               setupRegistry (ctor_proto c) proj = Inr reg \<longrightarrow>
               (\<exists>this. Addon (ctor_proto c) setupRegistry proj = Inr this \<and>
                  name this = Some (''(generated '' @ pkg_name (pkg addon) @ '' addon)'') \<and>
                  root this = Some (dirname modulePath))))
      \<and> (existsSync e modulePath \<longrightarrow>
           (\<forall>err. require modulePath = Inl err \<longrightarrow> lookup e require addon = (notices, Inl err))
           \<and> (\<forall>p. require modulePath = Inr (ExportsFunction p) \<longrightarrow>
                lookup e require addon =
                  (notices,
                   Inr (ModuleFunction (p\<lparr>proto_root :=
                     (if truthy (proto_root p) then proto_root p else Some (dirname modulePath))\<rparr>))))
           \<and> (\<forall>own_root p. require modulePath = Inr (ExportsObject own_root p) \<longrightarrow>
                lookup e require addon =
                  (notices,
                   Inr (AddonExtend (p\<lparr>proto_root :=
                     (if own_root then proto_root p else Some (dirname modulePath))\<rparr>)))))"
proof (intro allI impI conjI)
  fix notices modulePath
  assume r: "resolvePath (cwd e) addon = (notices, modulePath)"
  { assume ne: "\<not> existsSync e modulePath"
    with r show g: "lookup e require addon =
           (notices,
            Inr (AddonExtend
              \<lparr>proto_name = Some (''(generated '' @ pkg_name (pkg addon) @ '' addon)''),
               proto_root = Some (dirname modulePath),
               proto_modulePrefix = None, proto_methods = []\<rparr>))"
      by (simp add: lookup_def Let_def)
    fix setupRegistry :: "proto \<Rightarrow> nat \<Rightarrow> error + registry" and proj reg c
    assume "snd (lookup e require addon) = Inr c \<and> setupRegistry (ctor_proto c) proj = Inr reg"
    with g show "\<exists>this. Addon (ctor_proto c) setupRegistry proj = Inr this \<and>
                  name this = Some (''(generated '' @ pkg_name (pkg addon) @ '' addon)'') \<and>
                  root this = Some (dirname modulePath)"
      by (auto simp: Addon_def truthy_def Let_def) }
  { fix err assume "existsSync e modulePath" and "require modulePath = Inl err"
    with r show "lookup e require addon = (notices, Inl err)"
      by (simp add: lookup_def Let_def) }
  { fix p assume "existsSync e modulePath" and "require modulePath = Inr (ExportsFunction p)"
    with r show "lookup e require addon =
                  (notices,
                   Inr (ModuleFunction (p\<lparr>proto_root :=
                     (if truthy (proto_root p) then proto_root p else Some (dirname modulePath))\<rparr>)))"
      by (simp add: lookup_def Let_def) }
  { fix own_root p
    assume "existsSync e modulePath" and "require modulePath = Inr (ExportsObject own_root p)"
    with r show "lookup e require addon =
                  (notices,
                   Inr (AddonExtend (p\<lparr>proto_root :=
                     (if own_root then proto_root p else Some (dirname modulePath))\<rparr>)))"
      by (simp add: lookup_def Let_def) }
qed

theorem lookup_returns_constructor_witness:
  "lookup example_env example_require (example_ref ''/n/pk'' None None) =
     ([], Inr (AddonExtend
            \<lparr>proto_name = Some ''(generated pk addon)'', proto_root = Some ''/n/pk'',
             proto_modulePrefix = None, proto_methods = []\<rparr>))
   \<and> lookup example_env example_require (example_ref ''/r'' None None) =
     ([], Inr (AddonExtend
            \<lparr>proto_name = Some ''x'', proto_root = Some ''/r'',
             proto_modulePrefix = None, proto_methods = []\<rparr>))
   \<and> lookup example_env example_require (example_ref ''/r'' None (Some ''addon'')) =
     ([], Inl (SyntaxError ''Unexpected token''))"
proof -
  have r1: "resolvePath (cwd example_env) (example_ref ''/n/pk'' None None) = ([], ''/n/pk/index.js'')"
    and r2: "resolvePath (cwd example_env) (example_ref ''/r'' None None) = ([], ''/r/index.js'')"
    and r3: "resolvePath (cwd example_env) (example_ref ''/r'' None (Some ''addon'')) = ([], ''/r/addon.js'')"
    by (simp_all add: resolvePath_def deprecate_def truthy_def Let_def example_ref_def
        example_env_def extname_def basename_rev_def path_resolve_def isAbsolute_def
        normalizeString_def split_slash_def ToString_def)
  have e1: "\<not> existsSync example_env ''/n/pk/index.js''"
    and e2: "existsSync example_env ''/r/index.js''"
    and e3: "existsSync example_env ''/r/addon.js''"
    by (simp_all add: example_env_def)
  have q: "example_require ''/r/index.js'' =
      Inr (ExportsObject False
        \<lparr>proto_name = Some ''x'', proto_root = None, proto_modulePrefix = None, proto_methods = []\<rparr>)"
    and q3: "example_require ''/r/addon.js'' = Inl (SyntaxError ''Unexpected token'')"
    by (simp_all add: example_require_def)
  note th1 = lookup_returns_constructor [of example_env "example_ref ''/n/pk'' None None" example_require,
      rule_format, OF r1, THEN conjunct1, rule_format, OF e1, THEN conjunct1]
  note th2 = lookup_returns_constructor [of example_env "example_ref ''/r'' None None" example_require,
      rule_format, OF r2, THEN conjunct2, rule_format, OF e2, THEN conjunct2, THEN conjunct2,
      rule_format, OF q]
  note th3 = lookup_returns_constructor [of example_env "example_ref ''/r'' None (Some ''addon'')" example_require,
      rule_format, OF r3, THEN conjunct2, rule_format, OF e3, THEN conjunct1, rule_format, OF q3]
  from th1 th2 th3 show ?thesis
    by (simp add: example_ref_def dirname_def)
qed

text \<open>
  C5 as stated fails where loading the entry file throws: \<^verbatim>\<open>lookup\<close> then
  returns no constructor. Here the entry file \<^verbatim>\<open>/r/addon.js\<close> exists and does
  not parse.
\<close>

theorem lookup_require_throws_counterexample:
  "lookup example_env example_require (example_ref ''/r'' None (Some ''addon'')) =
     ([], Inl (SyntaxError ''Unexpected token''))"
  by (simp add: lookup_def resolvePath_def deprecate_def truthy_def Let_def example_ref_def
      example_env_def extname_def basename_rev_def path_resolve_def isAbsolute_def
      normalizeString_def split_slash_def ToString_def example_require_def)

subsection \<open>Discovered modules\<close>

text \<open>
  For a module name without a dollar sign, \<^verbatim>\<open>includedModules\<close> does what C2
  says: when glob returns files under the addon-source directory, each with an
  extension, the result has exactly the canonical names of those files as keys, and the
  bare module name as well exactly when \<^verbatim>\<open><moduleName>/index\<close> is among them;
  every key has the export list \<^verbatim>\<open>['default']\<close>, and the result is memoized.
\<close>

lemma includedModules_canonical:
  assumes memo: "includedModules_memo this = None"
    and tp: "path_join (root this) (map_of (treePaths this) ''addon'') = Inr p"
    and pat: "path_join (Some (replace_backslashes p)) (Some (jsFileGlob this)) = Inr pattern"
    and glob: "glob_sync e pattern = map (\<lambda>rel. replace_backslashes p @ ''/'' @ rel) rels"
    and ne: "rels \<noteq> []"
    and ext: "\<forall>rel\<in>set rels. extname rel \<noteq> []"
    and mn: "moduleName this = Inr (this1, m)" and dollar: "CHR ''$'' \<notin> set m"
  shows "\<exists>this' mods. includedModules e this = Inr (this', mods) \<and>
           includedModules_memo this' = Some mods \<and>
           set (Object_keys mods) =
             canonical_name m ` set rels \<union>
             (if m @ ''/index'' \<in> canonical_name m ` set rels then {m} else {}) \<and>
           (\<forall>k\<in>set (Object_keys mods). map_of mods k = Some [''default'']) \<and>
           distinct (Object_keys mods)"
proof -
  let ?mods = "canonical_modules m rels []"
  let ?this2 = "this1\<lparr>includedModules_memo := Some ?mods\<rparr>"
  have red: "includedModules_reduce (replace_backslashes p) this []
               (glob_sync e pattern) = Inr (this1, ?mods)"
    unfolding glob using includedModules_reduce_from [OF mn dollar ext] ne by simp
  have st2: "moduleName ?this2 = Inr (?this2, m)"
    using moduleName_stable [OF mn] by (simp add: moduleName_memo_update)
  have keys: "set (Object_keys ?mods) = canonical_name m ` set rels"
    using canonical_modules_keys [of m rels "[]"] by (simp add: Object_keys_def)
  have vals: "\<forall>k\<in>set (Object_keys ?mods). map_of ?mods k = Some [''default'']"
    by (rule canonical_modules_values) (simp add: Object_keys_def)
  have dist: "distinct (Object_keys ?mods)"
    by (rule canonical_modules_distinct) (simp add: Object_keys_def)
  have idx: "map_of ?mods (m @ ''/index'') \<noteq> None \<longleftrightarrow> m @ ''/index'' \<in> canonical_name m ` set rels"
    using map_of_None_keys [of ?mods "m @ ''/index''"] keys by simp
  show ?thesis
  proof (cases "m @ ''/index'' \<in> canonical_name m ` set rels")
    case False
    with idx have "map_of ?mods (m @ ''/index'') = None" by simp
    then have "includedModules e this = Inr (?this2, ?mods)"
      using memo tp pat red st2 by (simp add: includedModules_def Let_def)
    with keys vals dist False show ?thesis by auto
  next
    case True
    let ?mods' = "AList.update m [''default''] ?mods"
    from True idx have "map_of ?mods (m @ ''/index'') \<noteq> None" by simp
    then have r: "includedModules e this =
        Inr (?this2\<lparr>includedModules_memo := Some ?mods'\<rparr>, ?mods')"
      using memo tp pat red st2 by (simp add: includedModules_def Let_def)
    have k': "set (Object_keys ?mods') = canonical_name m ` set rels \<union> {m}"
      using keys by (auto simp: Object_keys_def AList.dom_update)
    have v': "\<forall>k\<in>set (Object_keys ?mods'). map_of ?mods' k = Some [''default'']"
      using vals by (auto simp: Object_keys_def AList.update_conv' AList.dom_update)
    have d': "distinct (Object_keys ?mods')"
      using dist by (simp add: Object_keys_def AList.distinct_update)
    from r k' v' d' True show ?thesis by auto
  qed
qed

text \<open>
  The example of the specification: the files \<^verbatim>\<open>foo.js\<close>,
  \<^verbatim>\<open>bar/baz.js\<close> and \<^verbatim>\<open>index.js\<close> under the module name
  \<^verbatim>\<open>x\<close>.
\<close>

lemma includedModules_example:
  "map_sum id snd (includedModules example_env (example_addon ''x'')) =
     Inr [(''x/bar/baz'', [''default'']), (''x/foo'', [''default'']),
          (''x/index'', [''default'']), (''x'', [''default''])]"
  by (simp add: includedModules_def Let_def example_env_def example_addon_def example_proto_def
      Addon_def example_setupRegistry_def truthy_def included_def path_join_def path_normalize_def normalizeString_def
      split_slash_def isAbsolute_def replace_backslashes_def jsFileGlob_def bindE_def
      moduleName_def ToString_def replace_whitespace_def toLowerCase_def toLowerCase_char_def
      is_whitespace_def replace_str_def slice_0_neg_def extname_def basename_rev_def)

text \<open>
  C2 fails on the code for a module name with a dollar sign. The file path is rewritten
  by \<^verbatim>\<open>filePath.replace(treePath, moduleName)\<close>, which expands
  \<^verbatim>\<open>$$\<close> in the replacement to one dollar sign: for the addon named
  \<^verbatim>\<open>a$$b\<close>, whose module name is \<^verbatim>\<open>a$$b\<close>, the three files are
  entered under \<^verbatim>\<open>a$b/...\<close>, and the bare alias is missing although
  \<^verbatim>\<open>index.js\<close> exists, because \<^verbatim>\<open>a$$b/index\<close> is not a key.
\<close>

theorem includedModules_dollar_name:
  "map_sum id snd (includedModules example_env (example_addon ''a$$b'')) =
     Inr [(''a$b/bar/baz'', [''default'']), (''a$b/foo'', [''default'']),
          (''a$b/index'', [''default''])]
   \<and> map_sum id snd (moduleName (example_addon ''a$$b'')) = Inr ''a$$b''"
  by (simp add: includedModules_def Let_def example_env_def example_addon_def example_proto_def
      Addon_def example_setupRegistry_def truthy_def included_def path_join_def path_normalize_def normalizeString_def
      split_slash_def isAbsolute_def replace_backslashes_def jsFileGlob_def bindE_def
      moduleName_def ToString_def replace_whitespace_def toLowerCase_def toLowerCase_char_def
      is_whitespace_def replace_str_def slice_0_neg_def extname_def basename_rev_def)

subsection \<open>The whitelist\<close>

text \<open>
  C1, as the code has it. Let \<^verbatim>\<open>includedModules()\<close> return the modules
  \<open>mods\<close>. When there are none, \<^verbatim>\<open>compileAddon\<close> short-circuits: it returns
  nothing and leaves the store as it is. When there are some, the owning application
  and the name are set and the template directory has no method of its own,
  \<^verbatim>\<open>compileAddon\<close> returns a bundle, and the whitelist of the owning
  application afterwards is the whitelist before with \<open>mods\<close> assigned: its keys are
  the keys before together with exactly the keys of \<open>mods\<close>, entries under other
  keys and the whitelists of other applications are unchanged, and an entry under one
  of the addon's keys, new or already present, holds an export list of the addon. The
  names whitelisted before the call are the ignored modules of the bundle, followed by
  the module name. The same holds of every call that returns, and over a sequential
  pass no key is ever removed.
\<close>

theorem whitelist_keys_additive:
  "(\<forall>this2 mods. includedModules e (requireBuildPackages this) = Inr (this2, mods) \<longrightarrow>
       (mods = [] \<longrightarrow> compileAddon e st this tree = Inr (st, this2, None))
     \<and> (mods \<noteq> [] \<longrightarrow>
          (\<forall>r a n d.
             app this = Some r \<and> map_of st r = Some a \<and> name this = Some n \<and>
             treeFor_directory e this ''addon-templates'' = Inr d \<and>
             lookup_method this (map_of (treeForMethods this) ''addon-templates'') = None \<longrightarrow>
             (\<exists>st' this' merged opts m.
                compileAddon e st this tree = Inr (st', this', Some (CompileES6 merged opts)) \<and>
                includedModules e this' = Inr (this', mods) \<and>
                whitelist_at st' r = assign (whitelist_at st r) mods \<and>
                set (Object_keys (whitelist_at st' r)) =
                  set (Object_keys (whitelist_at st r)) \<union> set (Object_keys mods) \<and>
                (\<forall>k. k \<notin> set (Object_keys mods) \<longrightarrow>
                     map_of (whitelist_at st' r) k = map_of (whitelist_at st r) k) \<and>
                (\<forall>k\<in>set (Object_keys mods).
                     \<exists>v. (k, v) \<in> set mods \<and> map_of (whitelist_at st' r) k = Some v) \<and>
                (\<forall>r'. r' \<noteq> r \<longrightarrow> whitelist_at st' r' = whitelist_at st r') \<and>
                ignoredModules opts = Object_keys (whitelist_at st r) @ [m]))))
   \<and> (\<forall>st' this' res. compileAddon e st this tree = Inr (st', this', res) \<longrightarrow>
       (res = None \<longrightarrow> st' = st)
     \<and> (res \<noteq> None \<longrightarrow>
          (\<exists>r mods.
             app this = Some r \<and> includedModules e this' = Inr (this', mods) \<and>
             set (Object_keys (whitelist_at st' r)) =
               set (Object_keys (whitelist_at st r)) \<union> set (Object_keys mods) \<and>
             (\<forall>k. k \<notin> set (Object_keys mods) \<longrightarrow>
                  map_of (whitelist_at st' r) k = map_of (whitelist_at st r) k) \<and>
             (\<forall>k\<in>set (Object_keys mods).
                  \<exists>v. (k, v) \<in> set mods \<and> map_of (whitelist_at st' r) k = Some v) \<and>
             (\<forall>r'. r' \<noteq> r \<longrightarrow> whitelist_at st' r' = whitelist_at st r') \<and>
             (\<exists>merged opts m. res = Some (CompileES6 merged opts) \<and>
                ignoredModules opts = Object_keys (whitelist_at st r) @ [m]))))
   \<and> (\<forall>ps st' rs r. compileAddon_pass e st ps = Inr (st', rs) \<longrightarrow>
         set (Object_keys (whitelist_at st r)) \<subseteq> set (Object_keys (whitelist_at st' r)))"
proof (intro conjI allI impI)
  fix this2 mods
  assume im: "includedModules e (requireBuildPackages this) = Inr (this2, mods)"
  { assume "mods = []"
    with im show "compileAddon e st this tree = Inr (st, this2, None)"
      by (simp add: compileAddon_short_circuit) }
  { fix r a n d
    assume ne: "mods \<noteq> []"
      and h: "app this = Some r \<and> map_of st r = Some a \<and> name this = Some n \<and>
             treeFor_directory e this ''addon-templates'' = Inr d \<and>
             lookup_method this (map_of (treeForMethods this) ''addon-templates'') = None"
    from h have ap: "app this = Some r" and ma: "map_of st r = Some a" and nm: "name this = Some n"
      and td: "treeFor_directory e this ''addon-templates'' = Inr d"
      and lm: "lookup_method this (map_of (treeForMethods this) ''addon-templates'') = None"
      by simp_all
    let ?st' = "AList.update r (a\<lparr>importWhitelist := assign (importWhitelist a) mods\<rparr>) st"
    from compileAddon_returns [OF im ne nm ap ma td lm, of tree]
    obtain this' merged opts m where
      c: "compileAddon e st this tree = Inr (?st', this', Some (CompileES6 merged opts))" and
      im': "includedModules e this' = Inr (this', mods)" and
      ig: "ignoredModules opts = Object_keys (importWhitelist a) @ [m]"
      by blast
    from ma have before: "whitelist_at st r = importWhitelist a" by (simp add: whitelist_at_def)
    have after: "whitelist_at ?st' r = assign (importWhitelist a) mods"
      by (simp add: whitelist_at_update)
    have others: "\<forall>r'. r' \<noteq> r \<longrightarrow> whitelist_at ?st' r' = whitelist_at st r'"
      by (simp add: whitelist_at_update)
    have 1: "whitelist_at ?st' r = assign (whitelist_at st r) mods"
      unfolding before after ..
    have 2: "set (Object_keys (whitelist_at ?st' r)) =
               set (Object_keys (whitelist_at st r)) \<union> set (Object_keys mods)"
      unfolding before after by (rule assign_keys)
    have 3: "\<forall>k. k \<notin> set (Object_keys mods) \<longrightarrow>
                  map_of (whitelist_at ?st' r) k = map_of (whitelist_at st r) k"
      unfolding before after by (simp add: assign_other)
    have 4: "\<forall>k\<in>set (Object_keys mods).
                  \<exists>v. (k, v) \<in> set mods \<and> map_of (whitelist_at ?st' r) k = Some v"
      unfolding before after by (simp add: assign_written)
    have 5: "ignoredModules opts = Object_keys (whitelist_at st r) @ [m]"
      unfolding before by (rule ig)
    show "\<exists>st' this' merged opts m.
                compileAddon e st this tree = Inr (st', this', Some (CompileES6 merged opts)) \<and>
                includedModules e this' = Inr (this', mods) \<and>
                whitelist_at st' r = assign (whitelist_at st r) mods \<and>
                set (Object_keys (whitelist_at st' r)) =
                  set (Object_keys (whitelist_at st r)) \<union> set (Object_keys mods) \<and>
                (\<forall>k. k \<notin> set (Object_keys mods) \<longrightarrow>
                     map_of (whitelist_at st' r) k = map_of (whitelist_at st r) k) \<and>
                (\<forall>k\<in>set (Object_keys mods).
                     \<exists>v. (k, v) \<in> set mods \<and> map_of (whitelist_at st' r) k = Some v) \<and>
                (\<forall>r'. r' \<noteq> r \<longrightarrow> whitelist_at st' r' = whitelist_at st r') \<and>
                ignoredModules opts = Object_keys (whitelist_at st r) @ [m]"
      apply (rule exI [of _ ?st'], rule exI [of _ this'], rule exI [of _ merged],
          rule exI [of _ opts], rule exI [of _ m])
      using c im' 1 2 3 4 others 5 by (intro conjI) }
next
  fix st' this' res
  assume c: "compileAddon e st this tree = Inr (st', this', res)"
  { assume "res = None"
    with compileAddon_cases [OF c] show "st' = st" by auto }
  { assume "res \<noteq> None"
    with compileAddon_cases [OF c] obtain r a mods m merged opts where
      ap: "app this = Some r" and ma: "map_of st r = Some a" and
      im: "includedModules e this' = Inr (this', mods)" and
      st': "st' = AList.update r (a\<lparr>importWhitelist := assign (importWhitelist a) mods\<rparr>) st" and
      res: "res = Some (CompileES6 merged opts)" and
      ig: "ignoredModules opts = Object_keys (importWhitelist a) @ [m]"
      by auto
    from ma have before: "whitelist_at st r = importWhitelist a" by (simp add: whitelist_at_def)
    from st' have after: "whitelist_at st' r = assign (importWhitelist a) mods"
      by (simp add: whitelist_at_update)
    from st' have others: "\<forall>r'. r' \<noteq> r \<longrightarrow> whitelist_at st' r' = whitelist_at st r'"
      by (simp add: whitelist_at_update)
    have "set (Object_keys (whitelist_at st' r)) =
               set (Object_keys (whitelist_at st r)) \<union> set (Object_keys mods)"
      unfolding before after by (rule assign_keys)
    moreover have "\<forall>k. k \<notin> set (Object_keys mods) \<longrightarrow>
                  map_of (whitelist_at st' r) k = map_of (whitelist_at st r) k"
      unfolding before after by (simp add: assign_other)
    moreover have "\<forall>k\<in>set (Object_keys mods).
                  \<exists>v. (k, v) \<in> set mods \<and> map_of (whitelist_at st' r) k = Some v"
      unfolding before after by (simp add: assign_written)
    moreover have "\<exists>merged opts m. res = Some (CompileES6 merged opts) \<and>
                ignoredModules opts = Object_keys (whitelist_at st r) @ [m]"
      unfolding before using res ig by blast
    ultimately show "\<exists>r mods.
             app this = Some r \<and> includedModules e this' = Inr (this', mods) \<and>
             set (Object_keys (whitelist_at st' r)) =
               set (Object_keys (whitelist_at st r)) \<union> set (Object_keys mods) \<and>
             (\<forall>k. k \<notin> set (Object_keys mods) \<longrightarrow>
                  map_of (whitelist_at st' r) k = map_of (whitelist_at st r) k) \<and>
             (\<forall>k\<in>set (Object_keys mods).
                  \<exists>v. (k, v) \<in> set mods \<and> map_of (whitelist_at st' r) k = Some v) \<and>
             (\<forall>r'. r' \<noteq> r \<longrightarrow> whitelist_at st' r' = whitelist_at st r') \<and>
             (\<exists>merged opts m. res = Some (CompileES6 merged opts) \<and>
                ignoredModules opts = Object_keys (whitelist_at st r) @ [m])"
      using ap im others by blast }
next
  fix ps st' rs r
  assume "compileAddon_pass e st ps = Inr (st', rs)"
  then show "set (Object_keys (whitelist_at st r)) \<subseteq> set (Object_keys (whitelist_at st' r))"
    by (rule compileAddon_pass_keys_grow)
qed

theorem whitelist_keys_additive_witness:
  "\<exists>st' this' merged opts m.
      compileAddon example_env [(0, example_app)] (example_addon ''x'')
        (UnwatchedTree ''/r/addon'') = Inr (st', this', Some (CompileES6 merged opts)) \<and>
      ignoredModules opts = [''ember'', ''ic-ajax''] @ [m] \<and>
      whitelist_at st' 0 =
        [(''ember'', [''default'']),
         (''ic-ajax'', [''default'', ''defineFixture'', ''lookupFixture'', ''raw'', ''request'']),
         (''x/bar/baz'', [''default'']), (''x/foo'', [''default'']),
         (''x/index'', [''default'']), (''x'', [''default''])] \<and>
      whitelist_at st' 1 = []"
proof -
  let ?mods = "[(''x/bar/baz'', [''default'']), (''x/foo'', [''default'']),
                (''x/index'', [''default'']), (''x'', [''default''])]"
  have "\<exists>this2. includedModules example_env (requireBuildPackages (example_addon ''x'')) =
          Inr (this2, ?mods)"
    by (simp add: eval_defs)
  then obtain this2 where
    im: "includedModules example_env (requireBuildPackages (example_addon ''x'')) = Inr (this2, ?mods)"
    by blast
  have ne: "?mods \<noteq> []" by simp
  have h: "app (example_addon ''x'') = Some 0 \<and> map_of [(0::nat, example_app)] 0 = Some example_app \<and>
      name (example_addon ''x'') = Some ''x'' \<and>
      treeFor_directory example_env (example_addon ''x'') ''addon-templates'' = Inr None \<and>
      lookup_method (example_addon ''x'')
        (map_of (treeForMethods (example_addon ''x'')) ''addon-templates'') = None"
    by (simp add: eval_defs)
  from whitelist_keys_additive [of example_env "example_addon ''x''" "[(0, example_app)]"
      "UnwatchedTree ''/r/addon''", THEN conjunct1, rule_format, OF im, THEN conjunct2,
      rule_format, OF ne h]
  obtain st' this' merged opts m where
    c: "compileAddon example_env [(0, example_app)] (example_addon ''x'')
          (UnwatchedTree ''/r/addon'') = Inr (st', this', Some (CompileES6 merged opts))" and
    rest: "includedModules example_env this' = Inr (this', ?mods) \<and>
      whitelist_at st' 0 = assign (whitelist_at [(0, example_app)] 0) ?mods \<and>
      set (Object_keys (whitelist_at st' 0)) =
        set (Object_keys (whitelist_at [(0, example_app)] 0)) \<union> set (Object_keys ?mods) \<and>
      (\<forall>k. k \<notin> set (Object_keys ?mods) \<longrightarrow>
           map_of (whitelist_at st' 0) k = map_of (whitelist_at [(0, example_app)] 0) k) \<and>
      (\<forall>k\<in>set (Object_keys ?mods).
           \<exists>v. (k, v) \<in> set ?mods \<and> map_of (whitelist_at st' 0) k = Some v) \<and>
      (\<forall>r'. r' \<noteq> 0 \<longrightarrow> whitelist_at st' r' = whitelist_at [(0, example_app)] r') \<and>
      ignoredModules opts = Object_keys (whitelist_at [(0, example_app)] 0) @ [m]"
    by (elim exE conjE) (rule that, assumption, intro conjI; assumption)
  note wl = rest [THEN conjunct2, THEN conjunct1]
  note others = rest [THEN conjunct2, THEN conjunct2, THEN conjunct2, THEN conjunct2,
      THEN conjunct2, THEN conjunct1]
  note ig = rest [THEN conjunct2, THEN conjunct2, THEN conjunct2, THEN conjunct2,
      THEN conjunct2, THEN conjunct2]
  have before: "whitelist_at [(0, example_app)] 0 =
      [(''ember'', [''default'']),
       (''ic-ajax'', [''default'', ''defineFixture'', ''lookupFixture'', ''raw'', ''request''])]"
    by (simp add: whitelist_at_def example_app_def)
  have one: "whitelist_at [(0, example_app)] 1 = []" by (simp add: whitelist_at_def)
  from wl have 1: "whitelist_at st' 0 =
        [(''ember'', [''default'']),
         (''ic-ajax'', [''default'', ''defineFixture'', ''lookupFixture'', ''raw'', ''request'']),
         (''x/bar/baz'', [''default'']), (''x/foo'', [''default'']),
         (''x/index'', [''default'']), (''x'', [''default''])]"
    unfolding before by (simp add: assign_def)
  from ig have 2: "ignoredModules opts = [''ember'', ''ic-ajax''] @ [m]"
    unfolding before by (simp add: Object_keys_def)
  from others one have 3: "whitelist_at st' 1 = []" by simp
  from c 1 2 3 show ?thesis by blast
qed

text \<open>
  C1 as stated fails: an entry is overwritten. The application's whitelist has
  \<^verbatim>\<open>ic-ajax\<close> with five exports; compiling an addon with that module name
  and an \<^verbatim>\<open>index.js\<close> leaves \<^verbatim>\<open>ic-ajax\<close> with
  \<^verbatim>\<open>['default']\<close>.
\<close>

theorem whitelist_overwritten_counterexample:
  "map_of (whitelist_at [(0, example_app)] 0) ''ic-ajax'' =
     Some [''default'', ''defineFixture'', ''lookupFixture'', ''raw'', ''request'']
   \<and> map_of (whitelist_at (store_of (compileAddon example_env [(0, example_app)]
         (example_addon ''ic-ajax'') (UnwatchedTree ''/r/addon''))) 0) ''ic-ajax'' =
     Some [''default'']"
  by (simp add: eval_defs whitelist_at_def store_of_def)

end
